theory Spec2Isabelle
  imports Main "HOL-Library.Sublist" "HOL-Library.AList"
begin

section \<open>ProfileMatcher: profile records and classification predicates\<close>

text \<open>
  Modelled from the spec: the struct \<^verbatim>\<open>Profile\<close> is declared in a file of package
  \<^verbatim>\<open>profile\<close> that is not among the sources. Its fields are the ones the data model
  of the specification lists,
  \<^verbatim>\<open>{Name, Host, AccountID, WorkspaceID, IsUnifiedHost, HasClientCredentials}\<close>, which
  are the ones the predicates of \<^verbatim>\<open>libs/databrickscfg/profile/profiler.go\<close> and
  \<^verbatim>\<open>loadToken\<close> read. Fields carry the prefix \<^verbatim>\<open>p\<close> because three structs of the
  program share field names.
\<close>

record Profile =
  pName :: string
  pHost :: string
  pAccountID :: string
  pWorkspaceID :: string
  pIsUnifiedHost :: bool
  pHasClientCredentials :: bool

type_synonym ProfileMatchFunction = "Profile \<Rightarrow> bool"

text \<open>
  Source: \<^verbatim>\<open>libs/databrickscfg/profile/profiler.go\<close>.
  \<^verbatim>\<open>
  func MatchWorkspaceProfiles(p Profile) bool {
      return (p.AccountID == "" && !p.IsUnifiedHost) ||
          (p.IsUnifiedHost && p.WorkspaceID != "")
  }
  func MatchAccountProfiles(p Profile) bool {
      return (p.Host != "" && p.AccountID != "" && !p.IsUnifiedHost) ||
          (p.IsUnifiedHost && p.AccountID != "" && p.WorkspaceID == "")
  }
  func MatchAllProfiles(p Profile) bool { return true }
  \<close>
\<close>

definition MatchWorkspaceProfiles :: ProfileMatchFunction where
  "MatchWorkspaceProfiles p =
     ((pAccountID p = [] \<and> \<not> pIsUnifiedHost p) \<or>
      (pIsUnifiedHost p \<and> pWorkspaceID p \<noteq> []))"

definition MatchAccountProfiles :: ProfileMatchFunction where
  "MatchAccountProfiles p =
     ((pHost p \<noteq> [] \<and> pAccountID p \<noteq> [] \<and> \<not> pIsUnifiedHost p) \<or>
      (pIsUnifiedHost p \<and> pAccountID p \<noteq> [] \<and> pWorkspaceID p = []))"

definition MatchAllProfiles :: ProfileMatchFunction where
  "MatchAllProfiles p = True"

text \<open>
  \<^verbatim>\<open>MatchProfileNames\<close> builds a set of the names and tests membership;
  \<^verbatim>\<open>WithName\<close> compares with one name.
\<close>

definition MatchProfileNames :: "string list \<Rightarrow> ProfileMatchFunction" where
  "MatchProfileNames names = (\<lambda>p. pName p \<in> set names)"

definition WithName :: "string \<Rightarrow> ProfileMatchFunction" where
  "WithName name = (\<lambda>p. pName p = name)"

section \<open>CredentialChain: the ordered strategies\<close>

text \<open>
  Source: \<^verbatim>\<open>libs/auth/credentials.go\<close>. The chain is a slice of strategy values; all
  but \<^verbatim>\<open>CLICredentials\<close> are types of the SDK. One constructor stands for each
  strategy type, in the spelling of the source.
\<close>

datatype CredentialsStrategy =
    PatCredentials
  | BasicCredentials
  | M2mCredentials
  | CLICredentials
  | MetadataServiceCredentials
  | GitHubOIDCCredentials
  | AzureDevOpsOIDCCredentials
  | EnvOIDCCredentials
  | FileOIDCCredentials
  | AzureGithubOIDCCredentials
  | AzureMsiCredentials
  | AzureClientSecretCredentials
  | AzureCliCredentials
  | GoogleCredentials
  | GoogleDefaultCredentials

definition credentialChain :: "CredentialsStrategy list" where
  "credentialChain =
     [PatCredentials, BasicCredentials, M2mCredentials, CLICredentials,
      MetadataServiceCredentials,
      GitHubOIDCCredentials, AzureDevOpsOIDCCredentials, EnvOIDCCredentials,
      FileOIDCCredentials,
      AzureGithubOIDCCredentials, AzureMsiCredentials, AzureClientSecretCredentials,
      AzureCliCredentials,
      GoogleCredentials, GoogleDefaultCredentials]"

text \<open>
  \<^verbatim>\<open>Name()\<close> of each strategy. \<^verbatim>\<open>CLICredentials.Name\<close> is in the source
  (\<^verbatim>\<open>return "databricks-cli"\<close>); the names of the SDK's strategies are the ones the
  repository's own test \<^verbatim>\<open>TestCredentialChainOrder\<close> reads off the chain, position by
  position.
\<close>

fun Name :: "CredentialsStrategy \<Rightarrow> string" where
  "Name PatCredentials = ''pat''"
| "Name BasicCredentials = ''basic''"
| "Name M2mCredentials = ''oauth-m2m''"
| "Name CLICredentials = ''databricks-cli''"
| "Name MetadataServiceCredentials = ''metadata-service''"
| "Name GitHubOIDCCredentials = ''github-oidc''"
| "Name AzureDevOpsOIDCCredentials = ''azure-devops-oidc''"
| "Name EnvOIDCCredentials = ''env-oidc''"
| "Name FileOIDCCredentials = ''file-oidc''"
| "Name AzureGithubOIDCCredentials = ''github-oidc-azure''"
| "Name AzureMsiCredentials = ''azure-msi''"
| "Name AzureClientSecretCredentials = ''azure-client-secret''"
| "Name AzureCliCredentials = ''azure-cli''"
| "Name GoogleCredentials = ''google-credentials''"
| "Name GoogleDefaultCredentials = ''google-id''"

text \<open>
  Modelled from the spec: the chain is handed to the SDK's
  \<^verbatim>\<open>config.NewCredentialsChain\<close>, which is not among the sources. What that walker does
  with the list is taken from the specification (section 4.3): it tries the strategies in
  sequence and the first one that is applicable to the configuration is authoritative.
  \<open>applicable\<close> is the precondition of each strategy, a parameter here.
\<close>

fun firstApplicable :: "('s \<Rightarrow> bool) \<Rightarrow> 's list \<Rightarrow> 's option" where
  "firstApplicable applicable [] = None"
| "firstApplicable applicable (s # ss) =
     (if applicable s then Some s else firstApplicable applicable ss)"

text \<open>The index of the first occurrence of a strategy in a chain.\<close>

fun positionOf :: "'s \<Rightarrow> 's list \<Rightarrow> nat option" where
  "positionOf x [] = None"
| "positionOf x (s # ss) =
     (if s = x then Some 0 else map_option Suc (positionOf x ss))"

section \<open>Host canonicalisation and the host matchers\<close>

text \<open>
  Modelled from the spec: the parts of a host string that canonicalisation tells apart.
  The source of \<^verbatim>\<open>canonicalizeHost\<close> delegates to the SDK (see below); the
  specification (section 4.2) names scheme, trailing slash, path and query. A scheme is a
  non-empty name of letters, digits, \<^verbatim>\<open>+\<close>, \<^verbatim>\<open>-\<close> and \<^verbatim>\<open>.\<close> followed by
  \<^verbatim>\<open>://\<close>; the host runs up to the first \<^verbatim>\<open>/\<close> or \<^verbatim>\<open>?\<close>.
\<close>

definition isSchemeChar :: "char \<Rightarrow> bool" where
  "isSchemeChar c =
     (let n = (of_char c :: nat)
      in (65 \<le> n \<and> n \<le> 90) \<or> (97 \<le> n \<and> n \<le> 122) \<or> (48 \<le> n \<and> n \<le> 57) \<or>
         c = CHR ''+'' \<or> c = CHR ''-'' \<or> c = CHR ''.'')"

definition stripScheme :: "string \<Rightarrow> string" where
  "stripScheme h =
     (let name = takeWhile (\<lambda>c. c \<noteq> CHR '':'') h;
          rest = dropWhile (\<lambda>c. c \<noteq> CHR '':'') h
      in if name \<noteq> [] \<and> list_all isSchemeChar name \<and> prefix ''://'' rest
         then drop 3 rest else h)"

definition hostPart :: "string \<Rightarrow> string" where
  "hostPart r = takeWhile (\<lambda>c. c \<noteq> CHR ''/'' \<and> c \<noteq> CHR ''?'') r"

text \<open>
  Modelled from the spec: the source is
  \<^verbatim>\<open>
  func canonicalizeHost(host string) string {
      return (&config.Config{Host: host}).CanonicalHostName()
  }
  \<close>
  and \<^verbatim>\<open>CanonicalHostName\<close> is a method of the SDK's configuration type, which is not
  among the sources. The specification (section 4.2) states what it does: it normalizes
  scheme, trailing slash, path and query, so that \<^verbatim>\<open>"https://x/"\<close>,
  \<^verbatim>\<open>"https://x/p?q=1"\<close> and \<^verbatim>\<open>"x"\<close> (scheme-less) are equivalent. The definition
  does that and nothing else: a leading scheme is dropped, everything from the first
  \<^verbatim>\<open>/\<close> or \<^verbatim>\<open>?\<close> on is dropped, and the remaining host is written with the scheme
  \<^verbatim>\<open>https\<close>.
\<close>

definition canonicalizeHost :: "string \<Rightarrow> string" where
  "canonicalizeHost host = ''https://'' @ hostPart (stripScheme host)"

text \<open>
  Source: \<^verbatim>\<open>libs/databrickscfg/profile/profiler.go\<close>.
  \<^verbatim>\<open>
  func WithHost(host string) ProfileMatchFunction {
      target := canonicalizeHost(host)
      return func(p Profile) bool {
          return p.Host != "" && canonicalizeHost(p.Host) == target
      }
  }
  func WithHostAndAccountID(host, accountID string) ProfileMatchFunction {
      target := canonicalizeHost(host)
      return func(p Profile) bool {
          return p.Host != "" && canonicalizeHost(p.Host) == target && p.AccountID == accountID
      }
  }
  \<close>
\<close>

definition WithHost :: "string \<Rightarrow> ProfileMatchFunction" where
  "WithHost host =
     (let target = canonicalizeHost host
      in (\<lambda>p. pHost p \<noteq> [] \<and> canonicalizeHost (pHost p) = target))"

definition WithHostAndAccountID :: "string \<Rightarrow> string \<Rightarrow> ProfileMatchFunction" where
  "WithHostAndAccountID host accountID =
     (let target = canonicalizeHost host
      in (\<lambda>p. pHost p \<noteq> [] \<and> canonicalizeHost (pHost p) = target \<and>
               pAccountID p = accountID))"




section \<open>Go errors\<close>

text \<open>
  A Go error value is modelled by its dynamic kind, the text its \<^verbatim>\<open>Error()\<close> method
  returns and the error it wraps (\<^verbatim>\<open>Unwrap()\<close>); \<^verbatim>\<open>nil\<close> is \<open>None\<close>. The kinds are
  the ones the program tests for: the sentinels \<^verbatim>\<open>cache.ErrNotFound\<close> and
  \<^verbatim>\<open>profile.ErrNoConfiguration\<close>, the SDK's \<^verbatim>\<open>*apierr.APIError\<close> with its status code
  and error code, and \<^verbatim>\<open>*u2m.InvalidRefreshTokenError\<close>. Every other error, among them
  the values of \<^verbatim>\<open>errors.New\<close> and \<^verbatim>\<open>fmt.Errorf\<close>, has kind \<open>OtherError\<close>.
\<close>

datatype errkind =
    OtherError
  | CacheErrNotFound
  | ErrNoConfiguration
  | APIError (StatusCode: int) (ErrorCode: string)
  | InvalidRefreshTokenError

datatype goerror = GoError (kindOf: errkind) (ErrorText: string) (Unwrap: "goerror option")

type_synonym error = "goerror option"

definition errorsNew :: "string \<Rightarrow> goerror" where
  "errorsNew text = GoError OtherError text None"

text \<open>\<^verbatim>\<open>fmt.Errorf\<close> with one \<^verbatim>\<open>%w\<close> verb: the formatted text, wrapping the operand.\<close>

definition fmtErrorf_w :: "string \<Rightarrow> goerror \<Rightarrow> goerror" where
  "fmtErrorf_w text err = GoError OtherError text (Some err)"

text \<open>
  \<^verbatim>\<open>errors.As\<close> walks the chain of wrapped errors and yields the first error of the
  target type; \<^verbatim>\<open>errors.Is\<close> walks it looking for a sentinel.
\<close>

fun errorsAs :: "(errkind \<Rightarrow> bool) \<Rightarrow> error \<Rightarrow> goerror option" where
  "errorsAs target None = None"
| "errorsAs target (Some (GoError k s u)) =
     (if target k then Some (GoError k s u) else errorsAs target u)"

fun errorsIs :: "error \<Rightarrow> errkind \<Rightarrow> bool" where
  "errorsIs None sentinel = False"
| "errorsIs (Some (GoError k s u)) sentinel = (if k = sentinel then True else errorsIs u sentinel)"

fun isAPIError :: "errkind \<Rightarrow> bool" where
  "isAPIError (APIError status code) = True"
| "isAPIError k = False"

fun isInvalidRefreshTokenError :: "errkind \<Rightarrow> bool" where
  "isInvalidRefreshTokenError InvalidRefreshTokenError = True"
| "isInvalidRefreshTokenError k = False"

section \<open>Configuration, auth arguments and OAuth arguments\<close>

text \<open>
  Modelled from the spec: \<^verbatim>\<open>config.Config\<close> is the SDK's configuration struct, which
  is not among the sources. The record holds the fields the program reads or writes and
  the specification lists (the ResolvedConfig of section 3 and the recognized keys of
  section 6).
\<close>

record Config =
  cHost :: string
  cProfile :: string
  cAccountID :: string
  cWorkspaceID :: string
  cAuthType :: string
  cToken :: string
  cConfigFile :: string
  cClusterID :: string
  cServerlessComputeID :: string
  cScopes :: "string list"
  cClientID :: string
  cClientSecret :: string
  cExperimental_IsUnifiedHost :: bool
  cDisableOAuthRefreshToken :: bool

text \<open>
  Modelled from the spec: \<^verbatim>\<open>AuthArguments\<close> is declared in a file of package
  \<^verbatim>\<open>libs/auth\<close> that is not among the sources. Its fields are the ones the
  specification lists (section 3), which are the ones \<^verbatim>\<open>authArgumentsFromConfig\<close>
  fills.
\<close>

record AuthArguments =
  aHost :: string
  aAccountID :: string
  aWorkspaceID :: string
  aIsUnifiedHost :: bool
  aProfile :: string

text \<open>
  \<^verbatim>\<open>u2m.OAuthArgument\<close>: the three variants \<^verbatim>\<open>BuildLoginCommand\<close> switches on, each
  with the values of the getters the program calls and the profile the argument was
  built with.
\<close>

datatype OAuthArgument =
    UnifiedOAuthArgument (GetHost: string) (GetAccountId: string) (GetProfile: string)
  | AccountOAuthArgument (GetAccountHost: string) (GetAccountId: string) (GetProfile: string)
  | WorkspaceOAuthArgument (GetWorkspaceHost: string) (GetProfile: string)

text \<open>
  Functions the program calls and the sources do not hold, as parameters:
  \<^verbatim>\<open>strings.ToLower\<close> of the Go library and the method
  \<^verbatim>\<open>AuthArguments.ToOAuthArgument\<close> of \<^verbatim>\<open>libs/auth/arguments.go\<close>, which returns an
  OAuth argument or an error.
\<close>

record Externals =
  ToLower :: "string \<Rightarrow> string"
  ToOAuthArgument :: "AuthArguments \<Rightarrow> goerror + OAuthArgument"

section \<open>Credentials strategy of the CLI\<close>

text \<open>
  Source: \<^verbatim>\<open>libs/auth/credentials.go\<close>.
  \<^verbatim>\<open>
  func authArgumentsFromConfig(cfg *config.Config) AuthArguments {
      return AuthArguments{
          Host:          cfg.Host,
          AccountID:     cfg.AccountID,
          WorkspaceID:   cfg.WorkspaceID,
          IsUnifiedHost: cfg.Experimental_IsUnifiedHost,
          Profile:       cfg.Profile,
      }
  }
  \<close>
\<close>

definition authArgumentsFromConfig :: "Config \<Rightarrow> AuthArguments" where
  "authArgumentsFromConfig cfg =
     \<lparr>aHost = cHost cfg, aAccountID = cAccountID cfg, aWorkspaceID = cWorkspaceID cfg,
      aIsUnifiedHost = cExperimental_IsUnifiedHost cfg, aProfile = cProfile cfg\<rparr>"

text \<open>
  The provider \<^verbatim>\<open>Configure\<close> returns is
  \<^verbatim>\<open>NewOAuthCredentialsProviderFromTokenSource(NewCachedTokenSource(ts, WithAsyncRefresh(b)))\<close>:
  a value built from the token source and the refresh option alone. The persistent auth
  client (\<^verbatim>\<open>c.persistentAuth\<close>: the test override when set, else
  \<^verbatim>\<open>u2m.NewPersistentAuth\<close>) is a parameter: from the OAuth argument to a token source
  of any type \<open>'ts\<close>, or an error.
  \<^verbatim>\<open>
  func (c CLICredentials) Configure(ctx context.Context, cfg *config.Config) (credentials.CredentialsProvider, error) {
      if cfg.Host == "" {
          return nil, errNoHost
      }
      oauthArg, err := authArgumentsFromConfig(cfg).ToOAuthArgument()
      if err != nil {
          return nil, err
      }
      ts, err := c.persistentAuth(ctx, u2m.WithOAuthArgument(oauthArg))
      if err != nil {
          return nil, err
      }
      cp := credentials.NewOAuthCredentialsProviderFromTokenSource(
          auth.NewCachedTokenSource(ts, auth.WithAsyncRefresh(!cfg.DisableOAuthRefreshToken)),
      )
      return cp, nil
  }
  \<close>
\<close>

datatype 'ts CredentialsProvider =
  OAuthCredentialsProviderFromCachedTokenSource (tokenSource: 'ts) (asyncRefresh: bool)

definition errNoHost :: goerror where
  "errNoHost = errorsNew ''no host provided''"

definition Configure ::
  "'x Externals_scheme \<Rightarrow> (OAuthArgument \<Rightarrow> goerror + 'ts) \<Rightarrow> Config \<Rightarrow>
     goerror + 'ts CredentialsProvider" where
  "Configure X persistentAuth cfg =
     (if cHost cfg = [] then Inl errNoHost
      else case ToOAuthArgument X (authArgumentsFromConfig cfg) of
        Inl err \<Rightarrow> Inl err
      | Inr oauthArg \<Rightarrow>
          (case persistentAuth oauthArg of
             Inl err \<Rightarrow> Inl err
           | Inr ts \<Rightarrow>
               Inr (OAuthCredentialsProviderFromCachedTokenSource ts
                      (\<not> cDisableOAuthRefreshToken cfg))))"

section \<open>ErrorEnricher\<close>

text \<open>
  Source: the file of package \<^verbatim>\<open>auth\<close> that defines \<^verbatim>\<open>EnrichAuthError\<close>,
  \<^verbatim>\<open>RewriteAuthError\<close> and \<^verbatim>\<open>BuildLoginCommand\<close>.
\<close>

definition AuthTypeDatabricksCli :: string where "AuthTypeDatabricksCli = ''databricks-cli''"
definition AuthTypePat :: string where "AuthTypePat = ''pat''"
definition AuthTypeBasic :: string where "AuthTypeBasic = ''basic''"
definition AuthTypeAzureCli :: string where "AuthTypeAzureCli = ''azure-cli''"
definition AuthTypeOAuthM2M :: string where "AuthTypeOAuthM2M = ''oauth-m2m''"
definition AuthTypeAzureMSI :: string where "AuthTypeAzureMSI = ''azure-msi''"
definition AuthTypeAzureSecret :: string where "AuthTypeAzureSecret = ''azure-client-secret''"
definition AuthTypeGoogleCreds :: string where "AuthTypeGoogleCreds = ''google-credentials''"
definition AuthTypeGoogleID :: string where "AuthTypeGoogleID = ''google-id''"
definition AuthTypeGitHubOIDC :: string where "AuthTypeGitHubOIDC = ''github-oidc-azure''"
definition AuthTypeMetadataService :: string where "AuthTypeMetadataService = ''metadata-service''"

definition authTypeDisplayNames :: "(string \<times> string) list" where
  "authTypeDisplayNames =
     [(AuthTypeDatabricksCli, ''OAuth (databricks-cli)''),
      (AuthTypePat, ''Personal Access Token (pat)''),
      (AuthTypeBasic, ''Basic''),
      (AuthTypeAzureCli, ''Azure CLI (azure-cli)''),
      (AuthTypeOAuthM2M, ''OAuth Machine-to-Machine (oauth-m2m)''),
      (AuthTypeAzureMSI, ''Azure Managed Identity (azure-msi)''),
      (AuthTypeAzureSecret, ''Azure Client Secret (azure-client-secret)''),
      (AuthTypeGoogleCreds, ''Google Credentials (google-credentials)''),
      (AuthTypeGoogleID, ''Google Default Credentials (google-id)''),
      (AuthTypeGitHubOIDC, ''GitHub OIDC for Azure (github-oidc-azure)''),
      (AuthTypeMetadataService, ''Metadata Service (metadata-service)'')]"

definition AuthTypeDisplayName :: "'x Externals_scheme \<Rightarrow> string \<Rightarrow> string" where
  "AuthTypeDisplayName X authType =
     (case map_of authTypeDisplayNames (ToLower X authType) of
        Some name \<Rightarrow> name
      | None \<Rightarrow> authType)"

text \<open>\<^verbatim>\<open>strings.Join\<close>.\<close>

fun stringsJoin :: "string list \<Rightarrow> string \<Rightarrow> string" where
  "stringsJoin [] sep = []"
| "stringsJoin [x] sep = x"
| "stringsJoin (x # y # ys) sep = x @ sep @ stringsJoin (y # ys) sep"

text \<open>
  \<^verbatim>\<open>
  func BuildLoginCommand(ctx context.Context, profile string, arg u2m.OAuthArgument) string {
      cmd := []string{"databricks", "auth", "login"}
      if profile != "" {
          cmd = append(cmd, "--profile", profile)
      } else {
          switch arg := arg.(type) {
          case u2m.UnifiedOAuthArgument:
              cmd = append(cmd, "--host", arg.GetHost(), "--account-id", arg.GetAccountId(), "--experimental-is-unified-host")
          case u2m.AccountOAuthArgument:
              cmd = append(cmd, "--host", arg.GetAccountHost(), "--account-id", arg.GetAccountId())
          case u2m.WorkspaceOAuthArgument:
              cmd = append(cmd, "--host", arg.GetWorkspaceHost())
          }
      }
      return strings.Join(cmd, " ")
  }
  \<close>
\<close>

definition BuildLoginCommand :: "string \<Rightarrow> OAuthArgument \<Rightarrow> string" where
  "BuildLoginCommand profile arg =
     (let cmd = [''databricks'', ''auth'', ''login''];
          cmd = (if profile \<noteq> [] then cmd @ [''--profile'', profile]
                 else case arg of
                   UnifiedOAuthArgument host accountId p \<Rightarrow>
                     cmd @ [''--host'', host, ''--account-id'', accountId,
                            ''--experimental-is-unified-host'']
                 | AccountOAuthArgument host accountId p \<Rightarrow>
                     cmd @ [''--host'', host, ''--account-id'', accountId]
                 | WorkspaceOAuthArgument host p \<Rightarrow>
                     cmd @ [''--host'', host])
      in stringsJoin cmd '' '')"

definition BuildDescribeCommand :: "Config \<Rightarrow> string" where
  "BuildDescribeCommand cfg =
     (if cProfile cfg \<noteq> [] then ''databricks auth describe --profile '' @ cProfile cfg
      else ''databricks auth describe'')"

text \<open>
  \<^verbatim>\<open>writeReauthSteps\<close> appends to the string builder; the model returns the text it
  appends. The \<^verbatim>\<open>switch\<close> compares the lower-cased auth type with the constants in the
  order of the source.
\<close>

definition writeReauthSteps :: "'x Externals_scheme \<Rightarrow> Config \<Rightarrow> string" where
  "writeReauthSteps X cfg =
     (let t = ToLower X (cAuthType cfg) in
      if t = AuthTypeDatabricksCli then
        (if cProfile cfg \<noteq> [] then
           ''\<newline>  - Re-authenticate: databricks auth login --profile '' @ cProfile cfg
         else case ToOAuthArgument X
                     \<lparr>aHost = cHost cfg, aAccountID = cAccountID cfg,
                      aWorkspaceID = cWorkspaceID cfg,
                      aIsUnifiedHost = cExperimental_IsUnifiedHost cfg, aProfile = []\<rparr> of
           Inl argErr \<Rightarrow> ''\<newline>  - Re-authenticate: databricks auth login''
         | Inr oauthArg \<Rightarrow>
             (let loginCmd = BuildLoginCommand [] oauthArg;
                  loginCmd = (if cExperimental_IsUnifiedHost cfg \<and> cWorkspaceID cfg \<noteq> []
                              then loginCmd @ '' --workspace-id '' @ cWorkspaceID cfg
                              else loginCmd)
              in ''\<newline>  - Re-authenticate: '' @ loginCmd))
      else if t = AuthTypePat then
        (if cProfile cfg \<noteq> [] then
           ''\<newline>  - Regenerate your access token or run: databricks configure --profile ''
             @ cProfile cfg
         else ''\<newline>  - Regenerate your access token'')
      else if t = AuthTypeBasic then
        (if cProfile cfg \<noteq> [] then
           ''\<newline>  - Check your username/password or run: databricks configure --profile ''
             @ cProfile cfg
         else ''\<newline>  - Check your username and password'')
      else if t = AuthTypeAzureCli then ''\<newline>  - Re-authenticate with Azure: az login''
      else if t = AuthTypeOAuthM2M then
        ''\<newline>  - Check your service principal client ID and secret''
      else ''\<newline>  - Check your authentication credentials'')"

text \<open>
  The text \<^verbatim>\<open>EnrichAuthError\<close> collects in its string builder for an API error of the
  given status code: the identity block, then the next-steps block.
\<close>

definition identityBlock :: "'x Externals_scheme \<Rightarrow> Config \<Rightarrow> string" where
  "identityBlock X cfg =
     (if cProfile cfg \<noteq> [] then ''\<newline>Profile:   '' @ cProfile cfg else []) @
     (if cHost cfg \<noteq> [] then ''\<newline>Host:      '' @ cHost cfg else []) @
     (if cAuthType cfg \<noteq> [] then ''\<newline>Auth type: '' @ AuthTypeDisplayName X (cAuthType cfg)
      else [])"

definition nextStepsBlock :: "'x Externals_scheme \<Rightarrow> Config \<Rightarrow> int \<Rightarrow> string" where
  "nextStepsBlock X cfg status =
     ''\<newline>\<newline>Next steps:'' @
     (if status = 401 then writeReauthSteps X cfg
      else ''\<newline>  - Verify you have the required permissions for this operation'') @
     ''\<newline>  - Check your identity: '' @ BuildDescribeCommand cfg @
     (if cProfile cfg = [] then
        ''\<newline>  - Consider configuring a profile: databricks configure --profile <name>''
      else [])"

text \<open>
  \<^verbatim>\<open>
  func EnrichAuthError(ctx context.Context, cfg *config.Config, err error) error {
      var apiErr *apierr.APIError
      if !errors.As(err, &apiErr) {
          return err
      }
      if apiErr.StatusCode != http.StatusUnauthorized && apiErr.StatusCode != http.StatusForbidden {
          return err
      }
      var b strings.Builder
      ...
      return fmt.Errorf("%w\n%s", err, b.String())
  }
  \<close>
\<close>

definition EnrichAuthError :: "'x Externals_scheme \<Rightarrow> Config \<Rightarrow> error \<Rightarrow> error" where
  "EnrichAuthError X cfg err =
     (case errorsAs isAPIError err of
        None \<Rightarrow> err
      | Some apiErr \<Rightarrow>
          if StatusCode (kindOf apiErr) \<noteq> 401 \<and> StatusCode (kindOf apiErr) \<noteq> 403 then err
          else (let b = identityBlock X cfg @ nextStepsBlock X cfg (StatusCode (kindOf apiErr))
                in map_option
                     (\<lambda>e. fmtErrorf_w (ErrorText e @ ''\<newline>'' @ b) e) err))"

text \<open>
  \<^verbatim>\<open>
  func RewriteAuthError(ctx context.Context, host, accountId, profile string, err error) (bool, error) {
      target := &u2m.InvalidRefreshTokenError{}
      if errors.As(err, &target) {
          oauthArgument, err := AuthArguments{Host: host, AccountID: accountId}.ToOAuthArgument()
          if err != nil {
              return false, err
          }
          msg := `A new access token could not be retrieved because the refresh token is invalid. To reauthenticate, run the following command:
    $ ` + BuildLoginCommand(ctx, profile, oauthArgument)
          return true, errors.New(msg)
      }
      return false, err
  }
  \<close>
\<close>

definition RewriteAuthError ::
  "'x Externals_scheme \<Rightarrow> string \<Rightarrow> string \<Rightarrow> string \<Rightarrow> error \<Rightarrow> bool \<times> error" where
  "RewriteAuthError X host accountId profile err =
     (if errorsAs isInvalidRefreshTokenError err \<noteq> None then
        (case ToOAuthArgument X
                \<lparr>aHost = host, aAccountID = accountId, aWorkspaceID = [],
                 aIsUnifiedHost = False, aProfile = []\<rparr> of
           Inl err' \<Rightarrow> (False, Some err')
         | Inr oauthArgument \<Rightarrow>
             (True,
              Some (errorsNew
                (''A new access token could not be retrieved because the refresh token is invalid. To reauthenticate, run the following command:\<newline>  $ ''
                 @ BuildLoginCommand profile oauthArgument))))
      else (False, err))"

section \<open>TokenResolver\<close>

text \<open>
  Source: \<^verbatim>\<open>cmd/auth/token.go\<close>. \<^verbatim>\<open>loadToken\<close> returns a token pointer and an
  error, or panics; a failure of the model is the error returned or the panic raised.
\<close>

datatype failure = Err goerror | Panic string

record oauth2_Token =
  AccessToken :: string
  TokenType :: string
  RefreshToken :: string
  Expiry :: int

datatype HostType = WorkspaceHost | AccountHost | UnifiedHost

datatype profileSelectionResult = profileSelected | enterHostSelected | createNewSelected

text \<open>
  What \<^verbatim>\<open>loadToken\<close> calls outside this file, as parameters. Of the repository, in
  files that are not among the sources: \<^verbatim>\<open>loadProfileByName\<close> and
  \<^verbatim>\<open>setHostAndAccountId\<close> (package \<^verbatim>\<open>cmd/auth\<close>; the second one updates the auth
  arguments in place and may prompt, so the model returns the updated arguments), and the
  implementations of the \<^verbatim>\<open>Profiler\<close> interface with its two methods
  \<^verbatim>\<open>LoadProfiles\<close> (a slice of profiles together with an error) and \<^verbatim>\<open>GetPath\<close>
  (its error is discarded by the caller). Of other packages: the environment
  (\<^verbatim>\<open>env.Get\<close>, \<^verbatim>\<open>env.GetBool\<close>), the terminal (\<^verbatim>\<open>cmdio.IsPromptSupported\<close> and
  \<^verbatim>\<open>cmdio.RunSelect\<close>, which yields the index of the chosen item), the SDK's
  \<^verbatim>\<open>Config.HostType\<close> (read off the canonical host, the account ID and the unified-host
  flag), the quoting of the format verb \<^verbatim>\<open>%q\<close>, and the persistent auth client:
  \<^verbatim>\<open>u2m.NewPersistentAuth\<close> (its error, \<open>None\<close> for success) and
  \<^verbatim>\<open>persistentAuth.Token()\<close>. The latter is indexed by the number of calls made before,
  so that the model can tell a first fetch from a retry. \<^verbatim>\<open>runInlineLogin\<close> is a
  function of this file that prompts, runs the OAuth challenge in a browser and writes the
  profile file; its outcome (the new profile's name and the profile, or an error) is a
  parameter as well. The timeout of the context is not modelled.
\<close>

record World = Externals +
  LoadProfiles :: "ProfileMatchFunction \<Rightarrow> Profile list \<times> error"
  GetPath :: string
  loadProfileByName :: "string \<Rightarrow> goerror + Profile option"
  setHostAndAccountId ::
    "Profile option \<Rightarrow> AuthArguments \<Rightarrow> string list \<Rightarrow> goerror + AuthArguments"
  envGet :: "string \<Rightarrow> string"
  envGetBool :: "string \<Rightarrow> bool"
  IsPromptSupported :: bool
  RunSelect :: "string \<Rightarrow> (string \<times> string) list \<Rightarrow> goerror + nat"
  HostTypeOf :: "string \<Rightarrow> string \<Rightarrow> bool \<Rightarrow> HostType"
  strconvQuote :: "string \<Rightarrow> string"
  runInlineLogin :: "goerror + (string \<times> Profile option)"
  NewPersistentAuth :: "OAuthArgument \<Rightarrow> error"
  Token :: "OAuthArgument \<Rightarrow> nat \<Rightarrow> goerror + oauth2_Token option"

text \<open>
  \<^verbatim>\<open>loadTokenArgs\<close>: the fields the resolution reads and updates. The profiler and the
  options of the persistent auth client are part of the \<open>World\<close>.
\<close>

record loadTokenArgs =
  authArguments :: AuthArguments
  profileName :: string
  args :: "string list"

text \<open>
  \<^verbatim>\<open>
  func helpfulError(ctx context.Context, profile string, persistentAuth u2m.OAuthArgument) string {
      loginMsg := auth.BuildLoginCommand(ctx, profile, persistentAuth)
      return fmt.Sprintf("Try logging in again with `%s` before retrying. If this fails, please report this issue to the Databricks CLI maintainers at https://github.com/databricks/cli/issues/new", loginMsg)
  }
  \<close>
\<close>

definition helpfulError :: "string \<Rightarrow> OAuthArgument \<Rightarrow> string" where
  "helpfulError profile persistentAuth =
     (let loginMsg = BuildLoginCommand profile persistentAuth
      in ''Try logging in again with `'' @ loginMsg @
         ''` before retrying. If this fails, please report this issue to the Databricks CLI maintainers at https://github.com/databricks/cli/issues/new'')"

text \<open>
  \<^verbatim>\<open>
  func applyUnifiedHostFlags(p *profile.Profile, args *auth.AuthArguments) {
      if p == nil {
          return
      }
      if !args.IsUnifiedHost && p.IsUnifiedHost {
          args.IsUnifiedHost = p.IsUnifiedHost
      }
      if args.WorkspaceID == "" && p.WorkspaceID != "" {
          args.WorkspaceID = p.WorkspaceID
      }
  }
  \<close>
\<close>

definition applyUnifiedHostFlags :: "Profile option \<Rightarrow> AuthArguments \<Rightarrow> AuthArguments" where
  "applyUnifiedHostFlags p a =
     (case p of
        None \<Rightarrow> a
      | Some p \<Rightarrow>
          (let a = (if \<not> aIsUnifiedHost a \<and> pIsUnifiedHost p
                    then a\<lparr>aIsUnifiedHost := pIsUnifiedHost p\<rparr> else a);
               a = (if aWorkspaceID a = [] \<and> pWorkspaceID p \<noteq> []
                    then a\<lparr>aWorkspaceID := pWorkspaceID p\<rparr> else a)
           in a))"

text \<open>
  The test \<^verbatim>\<open>err != nil && !errors.Is(err, profile.ErrNoConfiguration)\<close> that follows both
  calls of \<^verbatim>\<open>LoadProfiles\<close>: the error to return, if any.
\<close>

definition fatalLoadError :: "error \<Rightarrow> goerror option" where
  "fatalLoadError err =
     (case err of
        None \<Rightarrow> None
      | Some e \<Rightarrow> if \<not> errorsIs (Some e) ErrNoConfiguration then Some e else None)"

text \<open>
  \<^verbatim>\<open>promptForProfileSelection\<close>: the items are the profiles followed by the two
  actions; the index \<^verbatim>\<open>RunSelect\<close> returns selects the result. Indexing the profiles
  beyond their length panics in Go.
\<close>

definition promptForProfileSelection ::
  "'x World_scheme \<Rightarrow> Profile list \<Rightarrow> failure + (profileSelectionResult \<times> string)" where
  "promptForProfileSelection W profiles =
     (let items = map (\<lambda>p. (pName p, pHost p)) profiles;
          createProfileIdx = length items;
          items = items @ [(''Create a new profile'', [])];
          enterHostIdx = length items;
          items = items @ [(''Enter a host URL manually'', [])]
      in case RunSelect W ''Select a profile'' items of
           Inl err \<Rightarrow> Inl (Err err)
         | Inr i \<Rightarrow>
             if i = enterHostIdx then Inr (enterHostSelected, [])
             else if i = createProfileIdx then Inr (createNewSelected, [])
             else if i < length profiles then Inr (profileSelected, pName (profiles ! i))
             else Inl (Panic ''index out of range''))"

definition askForMatchingProfile ::
  "'x World_scheme \<Rightarrow> Profile list \<Rightarrow> string \<Rightarrow> failure + string" where
  "askForMatchingProfile W profiles host =
     (case RunSelect W (''Multiple profiles match '' @ host)
             (map (\<lambda>p. (pName p, pHost p)) profiles) of
        Inl err \<Rightarrow> Inl (Err err)
      | Inr i \<Rightarrow>
          if i < length profiles then Inr (pName (profiles ! i))
          else Inl (Panic ''index out of range''))"

text \<open>
  \<^verbatim>\<open>resolveNoArgsToken\<close> returns the resolved profile name and profile and updates the
  auth arguments in place; the model returns the three.
\<close>

definition resolveNoArgsToken ::
  "'x World_scheme \<Rightarrow> AuthArguments \<Rightarrow> failure + (string \<times> Profile option \<times> AuthArguments)" where
  "resolveNoArgsToken W authArgs =
     (let envHost = envGet W ''DATABRICKS_HOST'' in
      if envHost \<noteq> [] then
        (let a = authArgs\<lparr>aHost := envHost\<rparr>;
             v = envGet W ''DATABRICKS_ACCOUNT_ID'';
             a = (if v \<noteq> [] then a\<lparr>aAccountID := v\<rparr> else a);
             v = envGet W ''DATABRICKS_WORKSPACE_ID'';
             a = (if v \<noteq> [] then a\<lparr>aWorkspaceID := v\<rparr> else a);
             a = (if envGetBool W ''DATABRICKS_EXPERIMENTAL_IS_UNIFIED_HOST''
                  then a\<lparr>aIsUnifiedHost := True\<rparr> else a)
         in Inr ([], None, a))
      else
        (let envProfile = envGet W ''DATABRICKS_CONFIG_PROFILE'' in
         if envProfile \<noteq> [] then
           (case loadProfileByName W envProfile of
              Inl err \<Rightarrow> Inl (Err err)
            | Inr p \<Rightarrow> Inr (envProfile, p, authArgs))
         else
           (case LoadProfiles W MatchAllProfiles of
              (allProfiles, err) \<Rightarrow>
                (case fatalLoadError err of
                   Some e \<Rightarrow> Inl (Err e)
                 | None \<Rightarrow>
                     if \<not> IsPromptSupported W then
                       (if length allProfiles > 0 then
                          Inl (Err (errorsNew
                            ''no profile specified. Use --profile <name> to specify which profile to use''))
                        else
                          Inl (Err (errorsNew
                            (''no profiles configured. Run '' @ [CHR 0x27] @ ''databricks auth login''
                               @ [CHR 0x27] @ '' to create a profile''))))
                     else
                       (case promptForProfileSelection W allProfiles of
                          Inl f \<Rightarrow> Inl f
                        | Inr (result, selectedName) \<Rightarrow>
                            (case result of
                               enterHostSelected \<Rightarrow> Inr ([], None, authArgs)
                             | createNewSelected \<Rightarrow>
                                 (case runInlineLogin W of
                                    Inl err \<Rightarrow> Inl (Err err)
                                  | Inr (name, p) \<Rightarrow> Inr (name, p, authArgs))
                             | profileSelected \<Rightarrow>
                                 (case loadProfileByName W selectedName of
                                    Inl err \<Rightarrow> Inl (Err err)
                                  | Inr p \<Rightarrow> Inr (selectedName, p, authArgs))))))))"

text \<open>
  \<^verbatim>\<open>loadToken\<close>, in the order of the source. Its first part runs from the check of the
  profile flag against the positional arguments through \<^verbatim>\<open>setHostAndAccountId\<close>:
  \<^verbatim>\<open>
  if args.profileName != "" && len(args.args) > 0 {
      return nil, errors.New("providing both a profile and host is not supported")
  }
  if args.profileName == "" && len(args.args) == 1 {
      candidateProfile, err := loadProfileByName(ctx, args.args[0], args.profiler)
      if err != nil { return nil, err }
      if candidateProfile != nil {
          args.profileName = args.args[0]
          args.args = nil
      }
  }
  existingProfile, err := loadProfileByName(ctx, args.profileName, args.profiler)
  if err != nil { return nil, err }
  applyUnifiedHostFlags(existingProfile, args.authArguments)
  if args.profileName == "" && args.authArguments.Host == "" && len(args.args) == 0 {
      var resolvedProfile string
      resolvedProfile, existingProfile, err = resolveNoArgsToken(ctx, args.profiler, args.authArguments)
      if err != nil { return nil, err }
      args.profileName = resolvedProfile
      applyUnifiedHostFlags(existingProfile, args.authArguments)
  }
  err = setHostAndAccountId(ctx, existingProfile, args.authArguments, args.args)
  if err != nil { return nil, err }
  \<close>
  The state after it is the arguments as updated and \<^verbatim>\<open>existingProfile\<close>.
\<close>

definition resolvePositional :: "'x World_scheme \<Rightarrow> loadTokenArgs \<Rightarrow> failure + loadTokenArgs" where
  "resolvePositional W a =
     (if profileName a = [] \<and> length (args a) = 1 then
        (case loadProfileByName W (hd (args a)) of
           Inl err \<Rightarrow> Inl (Err err)
         | Inr candidateProfile \<Rightarrow>
             if candidateProfile \<noteq> None
             then Inr (a\<lparr>profileName := hd (args a), args := []\<rparr>)
             else Inr a)
      else Inr a)"

definition resolveNoArgs ::
  "'x World_scheme \<Rightarrow> loadTokenArgs \<Rightarrow> Profile option \<Rightarrow>
     failure + (loadTokenArgs \<times> Profile option)" where
  "resolveNoArgs W a existingProfile =
     (if profileName a = [] \<and> aHost (authArguments a) = [] \<and> length (args a) = 0 then
        (case resolveNoArgsToken W (authArguments a) of
           Inl f \<Rightarrow> Inl f
         | Inr (resolvedProfile, existingProfile, authArgs) \<Rightarrow>
             Inr (a\<lparr>profileName := resolvedProfile,
                     authArguments := applyUnifiedHostFlags existingProfile authArgs\<rparr>,
                  existingProfile))
      else Inr (a, existingProfile))"

definition resolveTarget ::
  "'x World_scheme \<Rightarrow> loadTokenArgs \<Rightarrow> failure + (loadTokenArgs \<times> Profile option)" where
  "resolveTarget W a =
     (if profileName a \<noteq> [] \<and> length (args a) > 0 then
        Inl (Err (errorsNew ''providing both a profile and host is not supported''))
      else case resolvePositional W a of
        Inl f \<Rightarrow> Inl f
      | Inr a \<Rightarrow>
          (case loadProfileByName W (profileName a) of
             Inl err \<Rightarrow> Inl (Err err)
           | Inr existingProfile \<Rightarrow>
               (let a = a\<lparr>authArguments :=
                            applyUnifiedHostFlags existingProfile (authArguments a)\<rparr>
                in case resolveNoArgs W a existingProfile of
                     Inl f \<Rightarrow> Inl f
                   | Inr (a, existingProfile) \<Rightarrow>
                       (case setHostAndAccountId W existingProfile (authArguments a) (args a) of
                          Inl err \<Rightarrow> Inl (Err err)
                        | Inr authArgs \<Rightarrow>
                            Inr (a\<lparr>authArguments := authArgs\<rparr>, existingProfile)))))"

text \<open>
  The second part resolves a known host to a stored profile:
  \<^verbatim>\<open>
  if args.profileName == "" && args.authArguments.Host != "" {
      cfg := &config.Config{Host: ..., AccountID: ..., Experimental_IsUnifiedHost: ...}
      cfg.CanonicalHostName()
      var matchFn profile.ProfileMatchFunction
      switch cfg.HostType() {
      case config.AccountHost, config.UnifiedHost:
          matchFn = profile.WithHostAndAccountID(args.authArguments.Host, args.authArguments.AccountID)
      default:
          matchFn = profile.WithHost(args.authArguments.Host)
      }
      matchingProfiles, err := args.profiler.LoadProfiles(ctx, matchFn)
      if err != nil && !errors.Is(err, profile.ErrNoConfiguration) { return nil, err }
      if len(matchingProfiles) > 1 {
          configPath, _ := args.profiler.GetPath(ctx)
          if configPath == "" {
              panic("configPath is empty but LoadProfiles returned multiple profiles")
          }
          if !cmdio.IsPromptSupported(ctx) {
              names := strings.Join(matchingProfiles.Names(), " and ")
              return nil, fmt.Errorf("%s match %s in %s. Use --profile to specify which profile to use",
                  names, args.authArguments.Host, configPath)
          }
          selected, err := askForMatchingProfile(ctx, matchingProfiles, args.authArguments.Host)
          if err != nil { return nil, err }
          args.profileName = selected
          existingProfile, err = loadProfileByName(ctx, selected, args.profiler)
          if err != nil { return nil, err }
      } else if len(matchingProfiles) == 1 {
          args.profileName = matchingProfiles[0].Name
          existingProfile = &matchingProfiles[0]
      }
  }
  \<close>
\<close>

definition hostMatchFn :: "'x World_scheme \<Rightarrow> AuthArguments \<Rightarrow> ProfileMatchFunction" where
  "hostMatchFn W authArgs =
     (case HostTypeOf W (canonicalizeHost (aHost authArgs)) (aAccountID authArgs)
             (aIsUnifiedHost authArgs) of
        AccountHost \<Rightarrow> WithHostAndAccountID (aHost authArgs) (aAccountID authArgs)
      | UnifiedHost \<Rightarrow> WithHostAndAccountID (aHost authArgs) (aAccountID authArgs)
      | WorkspaceHost \<Rightarrow> WithHost (aHost authArgs))"

definition ambiguousHostMessage :: "string list \<Rightarrow> string \<Rightarrow> string \<Rightarrow> string" where
  "ambiguousHostMessage names host configPath =
     stringsJoin names '' and '' @ '' match '' @ host @ '' in '' @ configPath @
     ''. Use --profile to specify which profile to use''"

definition resolveHostProfile ::
  "'x World_scheme \<Rightarrow> loadTokenArgs \<times> Profile option \<Rightarrow>
     failure + (loadTokenArgs \<times> Profile option)" where
  "resolveHostProfile W st =
     (case st of (a, existingProfile) \<Rightarrow>
      if profileName a = [] \<and> aHost (authArguments a) \<noteq> [] then
        (case LoadProfiles W (hostMatchFn W (authArguments a)) of
           (matchingProfiles, err) \<Rightarrow>
             (case fatalLoadError err of
                Some e \<Rightarrow> Inl (Err e)
              | None \<Rightarrow>
                  if length matchingProfiles > 1 then
                    (let configPath = GetPath W in
                     if configPath = [] then
                       Inl (Panic
                         ''configPath is empty but LoadProfiles returned multiple profiles'')
                     else if \<not> IsPromptSupported W then
                       Inl (Err (errorsNew
                         (ambiguousHostMessage (map pName matchingProfiles)
                            (aHost (authArguments a)) configPath)))
                     else
                       (case askForMatchingProfile W matchingProfiles
                               (aHost (authArguments a)) of
                          Inl f \<Rightarrow> Inl f
                        | Inr selected \<Rightarrow>
                            (case loadProfileByName W selected of
                               Inl e \<Rightarrow> Inl (Err e)
                             | Inr existingProfile \<Rightarrow>
                                 Inr (a\<lparr>profileName := selected\<rparr>, existingProfile))))
                  else if length matchingProfiles = 1 then
                    Inr (a\<lparr>profileName := pName (hd matchingProfiles)\<rparr>,
                         Some (hd matchingProfiles))
                  else Inr (a, existingProfile)))
      else Inr (a, existingProfile))"

text \<open>
  The third part checks for client credentials, stores the profile name in the auth
  arguments, builds the OAuth argument and fetches the token:
  \<^verbatim>\<open>
  if existingProfile != nil && existingProfile.HasClientCredentials {
      return nil, fmt.Errorf("profile %q uses M2M authentication (client_id/client_secret). "+ ..., args.profileName)
  }
  args.authArguments.Profile = args.profileName
  oauthArgument, err := args.authArguments.ToOAuthArgument()
  if err != nil { return nil, err }
  persistentAuth, err := u2m.NewPersistentAuth(ctx, allArgs...)
  if err != nil {
      helpMsg := helpfulError(ctx, args.profileName, oauthArgument)
      return nil, fmt.Errorf("%w. %s", err, helpMsg)
  }
  t, err := persistentAuth.Token()
  if err != nil {
      if errors.Is(err, cache.ErrNotFound) {
          err = errors.New("cache: databricks OAuth is not configured for this host")
      }
      if rewritten, rewrittenErr := auth.RewriteAuthError(ctx, args.authArguments.Host, args.authArguments.AccountID, args.profileName, err); rewritten {
          return nil, rewrittenErr
      }
      helpMsg := helpfulError(ctx, args.profileName, oauthArgument)
      return nil, fmt.Errorf("%w. %s", err, helpMsg)
  }
  return t, nil
  \<close>
  The result is paired with the number of calls of \<^verbatim>\<open>persistentAuth.Token()\<close> made.
\<close>

definition m2mMessage :: "'x World_scheme \<Rightarrow> string \<Rightarrow> string" where
  "m2mMessage W name =
     ''profile '' @ strconvQuote W name @
     '' uses M2M authentication (client_id/client_secret). '' @
     ''`databricks auth token` only supports U2M (user-to-machine) authentication tokens. '' @
     ''To authenticate as a service principal, use the Databricks SDK directly''"

definition cacheNotConfigured :: string where
  "cacheNotConfigured = ''cache: databricks OAuth is not configured for this host''"

definition fetchToken ::
  "'x World_scheme \<Rightarrow> loadTokenArgs \<times> Profile option \<Rightarrow>
     (failure + oauth2_Token option) \<times> nat" where
  "fetchToken W st =
     (case st of (a, existingProfile) \<Rightarrow>
      if (case existingProfile of None \<Rightarrow> False | Some p \<Rightarrow> pHasClientCredentials p) then
        (Inl (Err (errorsNew (m2mMessage W (profileName a)))), 0)
      else
        (let authArgs = (authArguments a)\<lparr>aProfile := profileName a\<rparr> in
         case ToOAuthArgument W authArgs of
           Inl err \<Rightarrow> (Inl (Err err), 0)
         | Inr oauthArgument \<Rightarrow>
             (case NewPersistentAuth W oauthArgument of
                Some err \<Rightarrow>
                  (let helpMsg = helpfulError (profileName a) oauthArgument
                   in (Inl (Err (fmtErrorf_w (ErrorText err @ ''. '' @ helpMsg) err)), 0))
              | None \<Rightarrow>
                  (case Token W oauthArgument 0 of
                     Inr t \<Rightarrow> (Inr t, 1)
                   | Inl err \<Rightarrow>
                       (let err = (if errorsIs (Some err) CacheErrNotFound
                                   then errorsNew cacheNotConfigured else err)
                        in case RewriteAuthError W (aHost authArgs) (aAccountID authArgs)
                                  (profileName a) (Some err) of
                             (rewritten, rewrittenErr) \<Rightarrow>
                               if rewritten then
                                 (case rewrittenErr of
                                    Some e \<Rightarrow> (Inl (Err e), 1)
                                  | None \<Rightarrow> (Inr None, 1))
                               else
                                 (let helpMsg = helpfulError (profileName a) oauthArgument
                                  in (Inl (Err (fmtErrorf_w
                                                  (ErrorText err @ ''. '' @ helpMsg) err)),
                                      1)))))))"

definition loadToken ::
  "'x World_scheme \<Rightarrow> loadTokenArgs \<Rightarrow> (failure + oauth2_Token option) \<times> nat" where
  "loadToken W a =
     (case resolveTarget W a of
        Inl f \<Rightarrow> (Inl f, 0)
      | Inr st \<Rightarrow>
          (case resolveHostProfile W st of
             Inl f \<Rightarrow> (Inl f, 0)
           | Inr st \<Rightarrow> fetchToken W st))"

section \<open>ProfileStore\<close>

text \<open>
  Modelled from the spec: \<^verbatim>\<open>loadOrCreateConfigFile\<close>, \<^verbatim>\<open>matchOrCreateSection\<close> and
  \<^verbatim>\<open>SaveToProfile\<close> of package \<^verbatim>\<open>databrickscfg\<close> are in a file that is not among the
  sources; only their tests are. The definitions of this section follow sections 3, 4.1
  and 6 of the specification.

  A section is a named mapping from keys to values; the profile file is the list of its
  sections in the order they are stored, the reserved section \<^verbatim>\<open>DEFAULT\<close> among them.
  A path of the disk holds nothing, cannot be created or written, holds text that does not
  parse (with the offending detail), or holds a profile file.
\<close>

type_synonym Section = "(string \<times> string) list"

type_synonym ConfigFile = "(string \<times> Section) list"



datatype StoreError =
    PermissionError string
  | ParseError string
  | EmptySectionName
  | MultipleProfilesMatched "string list"

text \<open>
  The texts of the two failures of \<^verbatim>\<open>matchOrCreateSection\<close> are literal (section 4.1);
  a permission or parse error carries the detail of the operating system or parser.
\<close>

fun storeErrorText :: "StoreError \<Rightarrow> string" where
  "storeErrorText (PermissionError detail) = detail"
| "storeErrorText (ParseError detail) = detail"
| "storeErrorText EmptySectionName = ''cannot create new profile: empty section name''"
| "storeErrorText (MultipleProfilesMatched names) =
     ''multiple profiles matched: '' @ stringsJoin names '', ''"


text \<open>
  Modelled from the spec: the sections a configuration matches by account ID (the section's \<^verbatim>\<open>account_id\<close>
  equals it) and by host (the section has a non-empty \<^verbatim>\<open>host\<close> whose canonical form
  equals the canonical form of the configuration's host), as names in stored order.
\<close>

definition accountMatches :: "ConfigFile \<Rightarrow> string \<Rightarrow> string list" where
  "accountMatches file accountID =
     map fst (filter (\<lambda>(name, section). map_of section ''account_id'' = Some accountID) file)"

definition hostMatches :: "ConfigFile \<Rightarrow> string \<Rightarrow> string list" where
  "hostMatches file host =
     map fst (filter (\<lambda>(name, section).
                 case map_of section ''host'' of
                   None \<Rightarrow> False
                 | Some h \<Rightarrow> h \<noteq> [] \<and> canonicalizeHost h = canonicalizeHost host) file)"

text \<open>
  Modelled from the spec: \<^verbatim>\<open>matchOrCreateSection\<close> is not among the sources.
  \<^verbatim>\<open>matchOrCreateSection(cfg)\<close> resolves the target section name with this precedence:
  (1) \<^verbatim>\<open>cfg.Profile\<close> if non-empty, created if absent; (2) else a single profile
  matching \<^verbatim>\<open>cfg.AccountID\<close>; (3) else a single profile matching the canonicalized
  \<^verbatim>\<open>cfg.Host\<close>; (4) else, if zero or more than one host matches, fail. No profile or host
  supplied fails with the empty-section-name error, multiple host matches with the names
  of the matches. A match set of size greater than one is never silently resolved (section
  3), so more than one account match is an error as well; without a match (and without a
  profile name to create the section under) nothing can be created. An empty account ID
  is not matched against the file: only non-empty fields of a configuration count.
  The model returns the name of the section and the file, with the section added when it
  was created.
\<close>

definition matchOrCreateSection :: "ConfigFile \<Rightarrow> Config \<Rightarrow> StoreError + (string \<times> ConfigFile)" where
  "matchOrCreateSection file cfg =
     (if cProfile cfg \<noteq> [] then
        (if cProfile cfg \<in> set (map fst file) then Inr (cProfile cfg, file)
         else Inr (cProfile cfg, file @ [(cProfile cfg, [])]))
      else
        (case (if cAccountID cfg \<noteq> [] then accountMatches file (cAccountID cfg) else []) of
           [name] \<Rightarrow> Inr (name, file)
         | name # name' # names \<Rightarrow> Inl (MultipleProfilesMatched (name # name' # names))
         | [] \<Rightarrow>
             (if cHost cfg = [] then Inl EmptySectionName
              else case hostMatches file (cHost cfg) of
                [name] \<Rightarrow> Inr (name, file)
              | [] \<Rightarrow> Inl EmptySectionName
              | name # name' # names \<Rightarrow>
                  Inl (MultipleProfilesMatched (name # name' # names)))))"









section \<open>Collaborators of the worked examples\<close>

text \<open>
  Instances of the parameters, for evaluating the definitions on the inputs of the
  repository's tests. \<open>asciiToLower\<close> agrees with \<^verbatim>\<open>strings.ToLower\<close> on ASCII text. A
  host is an account host when its canonical form starts with \<^verbatim>\<open>https://accounts.\<close>,
  as the hosts of the tests are. \<open>inMemoryWorld\<close> is the profiler of the tests (the stored
  profiles that match, in stored order, under the path \<^verbatim>\<open><in memory>\<close>), an empty
  environment, a host taken from the positional argument or else from the profile, and a
  token cache given by \<open>tokens\<close>.
\<close>

definition asciiToLower :: "string \<Rightarrow> string" where
  "asciiToLower s =
     map (\<lambda>c. let n = (of_char c :: nat) in if 65 \<le> n \<and> n \<le> 90 then char_of (n + 32) else c) s"

definition exampleHostType :: "string \<Rightarrow> string \<Rightarrow> bool \<Rightarrow> HostType" where
  "exampleHostType host accountID unified =
     (if unified then UnifiedHost
      else if prefix ''https://accounts.'' host then AccountHost
      else WorkspaceHost)"

definition exampleToOAuthArgument :: "AuthArguments \<Rightarrow> goerror + OAuthArgument" where
  "exampleToOAuthArgument a =
     (let host = canonicalizeHost (aHost a) in
      case exampleHostType host (aAccountID a) (aIsUnifiedHost a) of
        UnifiedHost \<Rightarrow> Inr (UnifiedOAuthArgument host (aAccountID a) (aProfile a))
      | AccountHost \<Rightarrow> Inr (AccountOAuthArgument host (aAccountID a) (aProfile a))
      | WorkspaceHost \<Rightarrow> Inr (WorkspaceOAuthArgument host (aProfile a)))"

definition exampleExternals :: Externals where
  "exampleExternals = \<lparr>ToLower = asciiToLower, ToOAuthArgument = exampleToOAuthArgument\<rparr>"

definition exampleSetHostAndAccountId ::
  "Profile option \<Rightarrow> AuthArguments \<Rightarrow> string list \<Rightarrow> goerror + AuthArguments" where
  "exampleSetHostAndAccountId existingProfile a positional =
     (if aHost a \<noteq> [] then
        (if positional \<noteq> [] then
           Inl (errorsNew ''please only provide a host as an argument or a flag, not both'')
         else Inr a)
      else case positional of
        host # rest \<Rightarrow> Inr (a\<lparr>aHost := host\<rparr>)
      | [] \<Rightarrow>
          (case existingProfile of
             Some p \<Rightarrow> Inr (a\<lparr>aHost := pHost p, aAccountID := pAccountID p\<rparr>)
           | None \<Rightarrow> Inl (errorsNew ''no host'')))"

definition inMemoryWorld ::
  "Profile list \<Rightarrow> string \<Rightarrow> bool \<Rightarrow> (OAuthArgument \<Rightarrow> nat \<Rightarrow> goerror + oauth2_Token option) \<Rightarrow> World" where
  "inMemoryWorld profiles path interactive tokens =
     \<lparr>ToLower = asciiToLower,
      ToOAuthArgument = exampleToOAuthArgument,
      LoadProfiles = (\<lambda>f. (filter f profiles, None)),
      GetPath = path,
      loadProfileByName = (\<lambda>name. if name = [] then Inr None
                                    else Inr (find (WithName name) profiles)),
      setHostAndAccountId = exampleSetHostAndAccountId,
      envGet = (\<lambda>name. []),
      envGetBool = (\<lambda>name. False),
      IsPromptSupported = interactive,
      RunSelect = (\<lambda>label items. Inr 0),
      HostTypeOf = exampleHostType,
      strconvQuote = (\<lambda>s. [CHR 0x22] @ s @ [CHR 0x22]),
      runInlineLogin = Inl (errorsNew ''login is not available''),
      NewPersistentAuth = (\<lambda>arg. None),
      Token = tokens\<rparr>"

definition workspaceProfile :: "string \<Rightarrow> string \<Rightarrow> Profile" where
  "workspaceProfile name host =
     \<lparr>pName = name, pHost = host, pAccountID = [], pWorkspaceID = [],
      pIsUnifiedHost = False, pHasClientCredentials = False\<rparr>"

definition accountProfile :: "string \<Rightarrow> string \<Rightarrow> string \<Rightarrow> Profile" where
  "accountProfile name host accountID =
     \<lparr>pName = name, pHost = host, pAccountID = accountID, pWorkspaceID = [],
      pIsUnifiedHost = False, pHasClientCredentials = False\<rparr>"

text \<open>The profiles of \<^verbatim>\<open>TestToken_loadToken\<close>.\<close>

definition testProfiles :: "Profile list" where
  "testProfiles =
     [accountProfile ''expired'' ''https://accounts.cloud.databricks.com'' ''expired'',
      accountProfile ''active'' ''https://accounts.cloud.databricks.com'' ''active'',
      workspaceProfile ''workspace-a'' ''https://workspace-a.cloud.databricks.com'',
      workspaceProfile ''dup1'' ''https://shared.cloud.databricks.com'',
      workspaceProfile ''dup2'' ''https://shared.cloud.databricks.com'',
      accountProfile ''acct-dup1'' ''https://accounts.cloud.databricks.com'' ''same-account'',
      accountProfile ''acct-dup2'' ''https://accounts.cloud.databricks.com'' ''same-account'',
      workspaceProfile ''default.dev'' ''https://dev.cloud.databricks.com'',
      workspaceProfile ''unique-ws'' ''https://unique-ws.cloud.databricks.com'',
      workspaceProfile ''legacy-ws'' ''https://legacy-ws.cloud.databricks.com'']"

definition noToken :: "OAuthArgument \<Rightarrow> nat \<Rightarrow> goerror + oauth2_Token option" where
  "noToken arg n = Inl (GoError CacheErrNotFound ''token not found'' None)"

definition emptyAuthArguments :: AuthArguments where
  "emptyAuthArguments =
     \<lparr>aHost = [], aAccountID = [], aWorkspaceID = [], aIsUnifiedHost = False, aProfile = []\<rparr>"

definition emptyConfig :: Config where
  "emptyConfig =
     \<lparr>cHost = [], cProfile = [], cAccountID = [], cWorkspaceID = [], cAuthType = [],
      cToken = [], cConfigFile = [], cClusterID = [], cServerlessComputeID = [],
      cScopes = [], cClientID = [], cClientSecret = [],
      cExperimental_IsUnifiedHost = False, cDisableOAuthRefreshToken = False\<rparr>"


definition testWorld :: World where
  "testWorld = inMemoryWorld testProfiles ''<in memory>'' False noToken"

text \<open>The same profiler, reporting an empty path.\<close>

definition pathlessWorld :: World where
  "pathlessWorld = inMemoryWorld testProfiles [] False noToken"

definition argsHost :: "string \<Rightarrow> loadTokenArgs" where
  "argsHost host =
     \<lparr>authArguments = emptyAuthArguments\<lparr>aHost := host\<rparr>, profileName = [], args = []\<rparr>"

definition argsPositional :: "string \<Rightarrow> string list \<Rightarrow> loadTokenArgs" where
  "argsPositional profile positional =
     \<lparr>authArguments = emptyAuthArguments, profileName = profile, args = positional\<rparr>"




definition testFile :: ConfigFile where
  "testFile =
     [(''DEFAULT'', [(''host'', ''https://default''), (''token'', ''default'')]),
      (''query'', [(''host'', ''https://query/?foo=bar''), (''token'', ''query'')]),
      (''foo1'', [(''host'', ''https://foo''), (''token'', ''foo1'')]),
      (''foo2'', [(''host'', ''https://foo''), (''token'', ''foo2'')]),
      (''acc'', [(''host'', ''https://accounts.cloud.databricks.com''),
                (''account_id'', ''abc'')])]"

text \<open>The configuration and the error of \<^verbatim>\<open>TestEnrichAuthError_PreservesOriginalError\<close>.\<close>

definition cfgPat :: Config where
  "cfgPat = emptyConfig\<lparr>cHost := ''https://example.com'', cAuthType := ''pat''\<rparr>"

definition permissionDenied :: goerror where
  "permissionDenied =
     GoError (APIError 403 ''PERMISSION_DENIED'') ''User does not have permission'' None"

section \<open>Theorems\<close>

subsection \<open>C9: workspace and account classification exclude each other\<close>

text \<open>
  Claim C9. No profile is matched by both \<^verbatim>\<open>MatchWorkspaceProfiles\<close> and
  \<^verbatim>\<open>MatchAccountProfiles\<close>; the two predicates are not exhaustive: a profile that is
  not a unified host, has an account ID and has no host is matched by neither.
\<close>

theorem C9_workspace_account_exclusive:
  "\<not> (MatchWorkspaceProfiles p \<and> MatchAccountProfiles p) \<and>
   \<not> MatchWorkspaceProfiles
        \<lparr>pName = n, pHost = [], pAccountID = CHR ''a'' # a, pWorkspaceID = w,
         pIsUnifiedHost = False, pHasClientCredentials = c\<rparr> \<and>
   \<not> MatchAccountProfiles
        \<lparr>pName = n, pHost = [], pAccountID = CHR ''a'' # a, pWorkspaceID = w,
         pIsUnifiedHost = False, pHasClientCredentials = c\<rparr>"
  unfolding MatchWorkspaceProfiles_def MatchAccountProfiles_def
  by auto

theorem C9_workspace_account_exclusive_witness:
  "\<not> (MatchWorkspaceProfiles
        \<lparr>pName = ''u'', pHost = ''https://h'', pAccountID = ''acc'',
         pWorkspaceID = ''123'', pIsUnifiedHost = True, pHasClientCredentials = False\<rparr> \<and>
      MatchAccountProfiles
        \<lparr>pName = ''u'', pHost = ''https://h'', pAccountID = ''acc'',
         pWorkspaceID = ''123'', pIsUnifiedHost = True, pHasClientCredentials = False\<rparr>)"
  using C9_workspace_account_exclusive
    [of "\<lparr>pName = ''u'', pHost = ''https://h'', pAccountID = ''acc'',
         pWorkspaceID = ''123'', pIsUnifiedHost = True, pHasClientCredentials = False\<rparr>"]
  by blast

subsection \<open>C6: canonical hosts and the host matcher\<close>












subsection \<open>C7: the order of the credential chain\<close>

text \<open>
  Claim C7. The names of the chain, in order, are pat, basic, oauth-m2m, databricks-cli,
  metadata-service, github-oidc, azure-devops-oidc, env-oidc, file-oidc,
  github-oidc-azure, azure-msi, azure-client-secret, azure-cli, google-credentials,
  google-id. The pat strategy stands strictly before databricks-cli (positions 0 and 3),
  so for every applicability test that accepts the pat strategy, whatever it says of
  databricks-cli, the first applicable strategy of the chain is pat.
\<close>

theorem C7_credential_chain_order:
  "map Name credentialChain =
     [''pat'', ''basic'', ''oauth-m2m'', ''databricks-cli'', ''metadata-service'',
      ''github-oidc'', ''azure-devops-oidc'', ''env-oidc'', ''file-oidc'',
      ''github-oidc-azure'', ''azure-msi'', ''azure-client-secret'', ''azure-cli'',
      ''google-credentials'', ''google-id''] \<and>
   positionOf PatCredentials credentialChain = Some 0 \<and>
   positionOf CLICredentials credentialChain = Some 3 \<and>
   (applicable PatCredentials \<longrightarrow>
      firstApplicable applicable credentialChain = Some PatCredentials \<and>
      map_option Name (firstApplicable applicable credentialChain) = Some ''pat'')"
  by (simp add: credentialChain_def)

theorem C7_credential_chain_order_witness:
  "firstApplicable (\<lambda>s. s = PatCredentials \<or> s = CLICredentials) credentialChain
     = Some PatCredentials \<and>
   firstApplicable (\<lambda>s. s = CLICredentials) credentialChain = Some CLICredentials"
  using C7_credential_chain_order [of "\<lambda>s. s = PatCredentials \<or> s = CLICredentials"]
  by (simp add: credentialChain_def)

subsection \<open>Evaluation of the worked examples\<close>

lemmas example_simps =
  testWorld_def pathlessWorld_def inMemoryWorld_def testProfiles_def workspaceProfile_def
  accountProfile_def emptyAuthArguments_def argsHost_def argsPositional_def
  exampleSetHostAndAccountId_def exampleHostType_def exampleToOAuthArgument_def noToken_def
  exampleExternals_def asciiToLower_def

lemmas canon_simps =
  canonicalizeHost_def stripScheme_def hostPart_def isSchemeChar_def

lemmas resolve_simps =
  resolveTarget_def resolvePositional_def resolveNoArgs_def applyUnifiedHostFlags_def

lemmas match_simps =
  hostMatchFn_def WithHost_def WithHostAndAccountID_def WithName_def

subsection \<open>C3: a profile flag together with a positional argument\<close>

text \<open>
  Claim C3. Whenever the profile flag is non-empty and at least one positional argument
  is given, token resolution fails with the error "providing both a profile and host is
  not supported", whatever the world holds (so whether or not the argument names a host
  or a stored profile); no token is fetched.
\<close>

theorem C3_profile_and_positional:
  "profileName a \<noteq> [] \<and> args a \<noteq> [] \<longrightarrow>
     loadToken W a =
       (Inl (Err (errorsNew ''providing both a profile and host is not supported'')), 0)"
  by (simp add: loadToken_def resolveTarget_def)

theorem C3_profile_and_positional_witness:
  "profileName (argsPositional ''active'' [''workspace-a'']) \<noteq> [] \<and>
   args (argsPositional ''active'' [''workspace-a'']) \<noteq> [] \<and>
   loadToken testWorld (argsPositional ''active'' [''workspace-a'']) =
     (Inl (Err (errorsNew ''providing both a profile and host is not supported'')), 0)"
  using C3_profile_and_positional [of "argsPositional ''active'' [''workspace-a'']" testWorld]
  by (simp add: argsPositional_def)

subsection \<open>C4: no cache entry for the host\<close>

lemma fetchToken_not_found:
  assumes m2m: "\<not> (case ep of None \<Rightarrow> False | Some p \<Rightarrow> pHasClientCredentials p)"
    and arg: "ToOAuthArgument W ((authArguments a)\<lparr>aProfile := profileName a\<rparr>) = Inr oa"
    and new: "NewPersistentAuth W oa = None"
    and tok: "Token W oa 0 = Inl e"
    and nf: "errorsIs (Some e) CacheErrNotFound"
  shows "fetchToken W (a, ep) =
     (Inl (Err (fmtErrorf_w (cacheNotConfigured @ ''. '' @ helpfulError (profileName a) oa)
                  (errorsNew cacheNotConfigured))), 1)"
  using assms
  by (simp add: fetchToken_def RewriteAuthError_def errorsNew_def)

text \<open>
  Claim C4. When the resolution reaches the fetch (the target is resolved, the profile
  does not use client credentials, the OAuth argument is built and the persistent auth
  client is created) and \<^verbatim>\<open>Token()\<close> reports an error that is \<^verbatim>\<open>cache.ErrNotFound\<close>,
  \<^verbatim>\<open>loadToken\<close> fails with an error whose text is the fixed string "cache: databricks
  OAuth is not configured for this host" followed by ". " and the remediation text of
  \<^verbatim>\<open>helpfulError\<close>; the error wraps a fresh error with the fixed text; and
  \<^verbatim>\<open>Token()\<close> has been called once.
\<close>

theorem C4_cache_not_found:
  assumes "resolveTarget W a = Inr st" and "resolveHostProfile W st = Inr (a', ep)"
    and "\<not> (case ep of None \<Rightarrow> False | Some p \<Rightarrow> pHasClientCredentials p)"
    and "ToOAuthArgument W ((authArguments a')\<lparr>aProfile := profileName a'\<rparr>) = Inr oa"
    and "NewPersistentAuth W oa = None"
    and "Token W oa 0 = Inl e"
    and "errorsIs (Some e) CacheErrNotFound"
  shows "loadToken W a =
     (Inl (Err (GoError OtherError
                  (''cache: databricks OAuth is not configured for this host'' @ ''. '' @
                   helpfulError (profileName a') oa)
                  (Some (errorsNew
                     ''cache: databricks OAuth is not configured for this host'')))),
      1)"
proof -
  have "fetchToken W (a', ep) =
     (Inl (Err (fmtErrorf_w (cacheNotConfigured @ ''. '' @ helpfulError (profileName a') oa)
                  (errorsNew cacheNotConfigured))), 1)"
    using assms(3-7) by (rule fetchToken_not_found)
  then have "loadToken W a =
     (Inl (Err (fmtErrorf_w (cacheNotConfigured @ ''. '' @ helpfulError (profileName a') oa)
                  (errorsNew cacheNotConfigured))), 1)"
    using assms(1,2) by (simp add: loadToken_def)
  then show ?thesis
    by (simp add: fmtErrorf_w_def cacheNotConfigured_def)
qed

theorem C4_cache_not_found_witness:
  "loadToken testWorld (argsPositional [] [''nonexistent'']) =
     (Inl (Err (GoError OtherError
        ''cache: databricks OAuth is not configured for this host. Try logging in again with `databricks auth login --host https://nonexistent` before retrying. If this fails, please report this issue to the Databricks CLI maintainers at https://github.com/databricks/cli/issues/new''
        (Some (GoError OtherError
                 ''cache: databricks OAuth is not configured for this host'' None)))), 1)"
proof -
  let ?a = "argsPositional [] [''nonexistent'']"
  let ?a' = "\<lparr>authArguments = emptyAuthArguments\<lparr>aHost := ''nonexistent''\<rparr>,
             profileName = [], args = [''nonexistent'']\<rparr>"
  let ?oa = "WorkspaceOAuthArgument ''https://nonexistent'' []"
  let ?e = "GoError CacheErrNotFound ''token not found'' None"
  have h1: "resolveTarget testWorld ?a = Inr (?a', None)"
    by (simp add: resolve_simps example_simps WithName_def)
  have h2: "resolveHostProfile testWorld (?a', None) = Inr (?a', None)"
    by (simp add: resolveHostProfile_def fatalLoadError_def match_simps canon_simps
          example_simps)
  have h3: "\<not> (case None :: Profile option of None \<Rightarrow> False
                | Some p \<Rightarrow> pHasClientCredentials p)"
    by simp
  have h4: "ToOAuthArgument testWorld ((authArguments ?a')\<lparr>aProfile := profileName ?a'\<rparr>)
              = Inr ?oa"
    by (simp add: canon_simps example_simps)
  have h5: "NewPersistentAuth testWorld ?oa = None"
    by (simp add: example_simps)
  have h6: "Token testWorld ?oa 0 = Inl ?e"
    by (simp add: example_simps)
  have h7: "errorsIs (Some ?e) CacheErrNotFound"
    by simp
  show ?thesis
    using C4_cache_not_found [OF h1 h2 h3 h4 h5 h6 h7]
    by (simp add: helpfulError_def BuildLoginCommand_def errorsNew_def)
qed

subsection \<open>C1: resolving a known host to a stored profile\<close>

lemma hostMatchFn_cases:
  "hostMatchFn W aa =
     (if HostTypeOf W (canonicalizeHost (aHost aa)) (aAccountID aa) (aIsUnifiedHost aa)
           = WorkspaceHost
      then WithHost (aHost aa)
      else WithHostAndAccountID (aHost aa) (aAccountID aa))"
  by (simp add: hostMatchFn_def split: HostType.splits)

lemma resolveHostProfile_none:
  assumes "profileName a' = []" "aHost (authArguments a') \<noteq> []"
    "LoadProfiles W (hostMatchFn W (authArguments a')) = ([], err)" "fatalLoadError err = None"
  shows "resolveHostProfile W (a', ep) = Inr (a', ep)"
  using assms by (simp add: resolveHostProfile_def)

lemma resolveHostProfile_one:
  assumes "profileName a' = []" "aHost (authArguments a') \<noteq> []"
    "LoadProfiles W (hostMatchFn W (authArguments a')) = ([p], err)" "fatalLoadError err = None"
  shows "resolveHostProfile W (a', ep) = Inr (a'\<lparr>profileName := pName p\<rparr>, Some p)"
  using assms by (simp add: resolveHostProfile_def)

lemma resolveHostProfile_many:
  assumes "profileName a' = []" "aHost (authArguments a') \<noteq> []"
    "LoadProfiles W (hostMatchFn W (authArguments a')) = (ms, err)" "fatalLoadError err = None"
    "length ms > 1" "\<not> IsPromptSupported W" "GetPath W \<noteq> []"
  shows "resolveHostProfile W (a', ep) =
     Inl (Err (errorsNew
       (stringsJoin (map pName ms) '' and '' @ '' match '' @ aHost (authArguments a') @
        '' in '' @ GetPath W @ ''. Use --profile to specify which profile to use'')))"
  using assms by (simp add: resolveHostProfile_def ambiguousHostMessage_def)

text \<open>
  Claim C1, as amended. Let the first part of \<^verbatim>\<open>loadToken\<close> end with no profile name
  and a known host, and let the scan of the profiler succeed (no error, or the tolerated
  \<^verbatim>\<open>ErrNoConfiguration\<close>) with the matches \<open>ms\<close>. The scan uses \<^verbatim>\<open>WithHost\<close> for a
  workspace host and \<^verbatim>\<open>WithHostAndAccountID\<close> for an account or unified host. With no
  match the fetch runs with an empty profile name (the lookup is keyed by the host); with
  one match it runs with that profile's name and that profile; with more than one match,
  no prompt and a non-empty config path, \<^verbatim>\<open>loadToken\<close> fails with "n1 and n2 match
  host in path. Use --profile to specify which profile to use", the names in the order
  the profiler returned them, and fetches nothing; with more than one match and an empty
  config path it panics.
\<close>

theorem C1_host_profile_resolution:
  assumes "resolveTarget W a = Inr (a', ep)"
    and "profileName a' = []" and "aHost (authArguments a') \<noteq> []"
    and "LoadProfiles W (hostMatchFn W (authArguments a')) = (ms, err)"
    and "fatalLoadError err = None"
  shows
   "hostMatchFn W (authArguments a') =
      (if HostTypeOf W (canonicalizeHost (aHost (authArguments a')))
            (aAccountID (authArguments a')) (aIsUnifiedHost (authArguments a')) = WorkspaceHost
       then WithHost (aHost (authArguments a'))
       else WithHostAndAccountID (aHost (authArguments a')) (aAccountID (authArguments a'))) \<and>
    (ms = [] \<longrightarrow> loadToken W a = fetchToken W (a'\<lparr>profileName := []\<rparr>, ep)) \<and>
    (\<forall>p. ms = [p] \<longrightarrow> loadToken W a = fetchToken W (a'\<lparr>profileName := pName p\<rparr>, Some p)) \<and>
    (length ms > 1 \<and> \<not> IsPromptSupported W \<and> GetPath W \<noteq> [] \<longrightarrow>
       loadToken W a =
         (Inl (Err (errorsNew
            (stringsJoin (map pName ms) '' and '' @ '' match '' @ aHost (authArguments a') @
             '' in '' @ GetPath W @ ''. Use --profile to specify which profile to use''))), 0)) \<and>
    (length ms > 1 \<and> GetPath W = [] \<longrightarrow>
       loadToken W a =
         (Inl (Panic ''configPath is empty but LoadProfiles returned multiple profiles''), 0))"
proof (intro conjI impI allI)
  show "hostMatchFn W (authArguments a') =
      (if HostTypeOf W (canonicalizeHost (aHost (authArguments a')))
            (aAccountID (authArguments a')) (aIsUnifiedHost (authArguments a')) = WorkspaceHost
       then WithHost (aHost (authArguments a'))
       else WithHostAndAccountID (aHost (authArguments a')) (aAccountID (authArguments a')))"
    by (rule hostMatchFn_cases)
next
  assume "ms = []"
  then have "resolveHostProfile W (a', ep) = Inr (a', ep)"
    using assms by (simp add: resolveHostProfile_none)
  moreover have "a'\<lparr>profileName := []\<rparr> = a'"
    using assms(2) by simp
  ultimately show "loadToken W a = fetchToken W (a'\<lparr>profileName := []\<rparr>, ep)"
    using assms(1) by (simp add: loadToken_def)
next
  fix p assume "ms = [p]"
  then have "resolveHostProfile W (a', ep) = Inr (a'\<lparr>profileName := pName p\<rparr>, Some p)"
    using assms by (simp add: resolveHostProfile_one)
  then show "loadToken W a = fetchToken W (a'\<lparr>profileName := pName p\<rparr>, Some p)"
    using assms(1) by (simp add: loadToken_def)
next
  assume "length ms > 1 \<and> \<not> IsPromptSupported W \<and> GetPath W \<noteq> []"
  then have "resolveHostProfile W (a', ep) =
     Inl (Err (errorsNew
       (stringsJoin (map pName ms) '' and '' @ '' match '' @ aHost (authArguments a') @
        '' in '' @ GetPath W @ ''. Use --profile to specify which profile to use'')))"
    using assms by (simp add: resolveHostProfile_many)
  then show "loadToken W a =
         (Inl (Err (errorsNew
            (stringsJoin (map pName ms) '' and '' @ '' match '' @ aHost (authArguments a') @
             '' in '' @ GetPath W @ ''. Use --profile to specify which profile to use''))), 0)"
    using assms(1) by (simp add: loadToken_def)
next
  assume "length ms > 1 \<and> GetPath W = []"
  then have "resolveHostProfile W (a', ep) =
     Inl (Panic ''configPath is empty but LoadProfiles returned multiple profiles'')"
    using assms by (simp add: resolveHostProfile_def)
  then show "loadToken W a =
         (Inl (Panic ''configPath is empty but LoadProfiles returned multiple profiles''), 0)"
    using assms(1) by (simp add: loadToken_def)
qed

lemma resolveTarget_argsHost:
  "host \<noteq> [] \<Longrightarrow>
   resolveTarget (inMemoryWorld profiles path interactive tokens) (argsHost host) =
     Inr (argsHost host, None)"
  by (simp add: resolve_simps inMemoryWorld_def argsHost_def emptyAuthArguments_def
        exampleSetHostAndAccountId_def)

lemma fatalLoadError_None: "fatalLoadError None = None"
  by (simp add: fatalLoadError_def)

theorem C1_host_profile_resolution_witness:
  "loadToken testWorld (argsHost ''https://shared.cloud.databricks.com'') =
     (Inl (Err (errorsNew
        ''dup1 and dup2 match https://shared.cloud.databricks.com in <in memory>. Use --profile to specify which profile to use'')),
      0) \<and>
   loadToken testWorld (argsHost ''https://unique-ws.cloud.databricks.com'') =
     fetchToken testWorld
       ((argsHost ''https://unique-ws.cloud.databricks.com'')\<lparr>profileName := ''unique-ws''\<rparr>,
        Some (workspaceProfile ''unique-ws'' ''https://unique-ws.cloud.databricks.com'')) \<and>
   loadToken testWorld (argsHost ''https://no-profile.cloud.databricks.com'') =
     fetchToken testWorld
       ((argsHost ''https://no-profile.cloud.databricks.com'')\<lparr>profileName := []\<rparr>, None)"
proof (intro conjI)
  let ?h = "''https://shared.cloud.databricks.com''"
  have t: "resolveTarget testWorld (argsHost ?h) = Inr (argsHost ?h, None)"
    unfolding testWorld_def by (rule resolveTarget_argsHost) simp
  have n: "profileName (argsHost ?h) = []" and h: "aHost (authArguments (argsHost ?h)) \<noteq> []"
    by (simp_all add: argsHost_def emptyAuthArguments_def)
  have l: "LoadProfiles testWorld (hostMatchFn testWorld (authArguments (argsHost ?h))) =
     ([workspaceProfile ''dup1'' ?h, workspaceProfile ''dup2'' ?h], None)"
    by (simp add: match_simps canon_simps example_simps)
  show "loadToken testWorld (argsHost ?h) =
     (Inl (Err (errorsNew
        ''dup1 and dup2 match https://shared.cloud.databricks.com in <in memory>. Use --profile to specify which profile to use'')),
      0)"
    using C1_host_profile_resolution [OF t n h l fatalLoadError_None]
    by (simp add: example_simps)
next
  let ?h = "''https://unique-ws.cloud.databricks.com''"
  have t: "resolveTarget testWorld (argsHost ?h) = Inr (argsHost ?h, None)"
    unfolding testWorld_def by (rule resolveTarget_argsHost) simp
  have n: "profileName (argsHost ?h) = []" and h: "aHost (authArguments (argsHost ?h)) \<noteq> []"
    by (simp_all add: argsHost_def emptyAuthArguments_def)
  have l: "LoadProfiles testWorld (hostMatchFn testWorld (authArguments (argsHost ?h))) =
     ([workspaceProfile ''unique-ws'' ?h], None)"
    by (simp add: match_simps canon_simps example_simps)
  show "loadToken testWorld (argsHost ?h) =
     fetchToken testWorld
       ((argsHost ?h)\<lparr>profileName := ''unique-ws''\<rparr>, Some (workspaceProfile ''unique-ws'' ?h))"
    using C1_host_profile_resolution [OF t n h l fatalLoadError_None]
    by (simp add: workspaceProfile_def)
next
  let ?h = "''https://no-profile.cloud.databricks.com''"
  have t: "resolveTarget testWorld (argsHost ?h) = Inr (argsHost ?h, None)"
    unfolding testWorld_def by (rule resolveTarget_argsHost) simp
  have n: "profileName (argsHost ?h) = []" and h: "aHost (authArguments (argsHost ?h)) \<noteq> []"
    by (simp_all add: argsHost_def emptyAuthArguments_def)
  have l: "LoadProfiles testWorld (hostMatchFn testWorld (authArguments (argsHost ?h))) =
     ([], None)"
    by (simp add: match_simps canon_simps example_simps)
  show "loadToken testWorld (argsHost ?h) =
     fetchToken testWorld ((argsHost ?h)\<lparr>profileName := []\<rparr>, None)"
    using C1_host_profile_resolution [OF t n h l fatalLoadError_None]
    by simp
qed

text \<open>
  The claim as stated fails where the profiler reports an empty path: two stored
  profiles match the host, no prompt is supported, and \<^verbatim>\<open>loadToken\<close> panics instead of
  returning the message.
\<close>

theorem C1_empty_config_path_counterexample:
  "length (fst (LoadProfiles pathlessWorld
             (hostMatchFn pathlessWorld
                (authArguments (argsHost ''https://shared.cloud.databricks.com''))))) = 2 \<and>
   \<not> IsPromptSupported pathlessWorld \<and>
   loadToken pathlessWorld (argsHost ''https://shared.cloud.databricks.com'') =
     (Inl (Panic ''configPath is empty but LoadProfiles returned multiple profiles''), 0) \<and>
   fst (loadToken pathlessWorld (argsHost ''https://shared.cloud.databricks.com'')) \<noteq>
     Inl (Err (errorsNew
        (ambiguousHostMessage [''dup1'', ''dup2''] ''https://shared.cloud.databricks.com''
           (GetPath pathlessWorld))))"
proof -
  let ?h = "''https://shared.cloud.databricks.com''"
  have t: "resolveTarget pathlessWorld (argsHost ?h) = Inr (argsHost ?h, None)"
    unfolding pathlessWorld_def by (rule resolveTarget_argsHost) simp
  have l: "LoadProfiles pathlessWorld (hostMatchFn pathlessWorld (authArguments (argsHost ?h))) =
     ([workspaceProfile ''dup1'' ?h, workspaceProfile ''dup2'' ?h], None)"
    by (simp add: match_simps canon_simps example_simps)
  have r: "resolveHostProfile pathlessWorld (argsHost ?h, None) =
     Inl (Panic ''configPath is empty but LoadProfiles returned multiple profiles'')"
    using l by (simp add: resolveHostProfile_def fatalLoadError_def argsHost_def
                  emptyAuthArguments_def pathlessWorld_def inMemoryWorld_def)
  have lt: "loadToken pathlessWorld (argsHost ?h) =
     (Inl (Panic ''configPath is empty but LoadProfiles returned multiple profiles''), 0)"
    using t r by (simp add: loadToken_def)
  show ?thesis
    using l lt by (simp add: pathlessWorld_def inMemoryWorld_def)
qed

subsection \<open>C8: enrichment of API errors\<close>

text \<open>
  Claim C8. \<^verbatim>\<open>EnrichAuthError\<close> returns the error it was given when \<^verbatim>\<open>errors.As\<close>
  finds no API error in it, and when the API error found has a status code other than 401
  and 403. For 401 and 403 the result is a new error whose text is the text of the given
  error, a newline, the identity block and the next-steps block; it wraps the given
  error, and \<^verbatim>\<open>errors.As\<close> finds in it the same API error, status code and error code
  included.
\<close>

theorem C8_enrich_auth_error:
  "(errorsAs isAPIError err = None \<longrightarrow> EnrichAuthError X cfg err = err) \<and>
   (\<forall>a. errorsAs isAPIError err = Some a \<and>
        StatusCode (kindOf a) \<noteq> 401 \<and> StatusCode (kindOf a) \<noteq> 403 \<longrightarrow>
        EnrichAuthError X cfg err = err) \<and>
   (\<forall>a e. err = Some e \<and> errorsAs isAPIError err = Some a \<and>
        (StatusCode (kindOf a) = 401 \<or> StatusCode (kindOf a) = 403) \<longrightarrow>
        EnrichAuthError X cfg err =
          Some (GoError OtherError
                  (ErrorText e @ ''\<newline>'' @ identityBlock X cfg @
                     nextStepsBlock X cfg (StatusCode (kindOf a)))
                  (Some e)) \<and>
        errorsAs isAPIError (EnrichAuthError X cfg err) = Some a)"
  by (auto simp: EnrichAuthError_def fmtErrorf_w_def)

theorem C8_enrich_auth_error_witness:
  "EnrichAuthError exampleExternals cfgPat (Some (errorsNew ''some random error''))
     = Some (errorsNew ''some random error'') \<and>
   EnrichAuthError exampleExternals cfgPat (Some (GoError (APIError 404 []) ''not found'' None))
     = Some (GoError (APIError 404 []) ''not found'' None) \<and>
   EnrichAuthError exampleExternals cfgPat (Some permissionDenied) =
     Some (GoError OtherError
       ''User does not have permission\<newline>\<newline>Host:      https://example.com\<newline>Auth type: Personal Access Token (pat)\<newline>\<newline>Next steps:\<newline>  - Verify you have the required permissions for this operation\<newline>  - Check your identity: databricks auth describe\<newline>  - Consider configuring a profile: databricks configure --profile <name>''
       (Some permissionDenied)) \<and>
   errorsAs isAPIError (EnrichAuthError exampleExternals cfgPat (Some permissionDenied))
     = Some permissionDenied \<and>
   kindOf permissionDenied = APIError 403 ''PERMISSION_DENIED''"
proof -
  have a: "errorsAs isAPIError (Some (errorsNew ''some random error'')) = None"
    by (simp add: errorsNew_def)
  have b: "errorsAs isAPIError (Some (GoError (APIError 404 []) ''not found'' None))
             = Some (GoError (APIError 404 []) ''not found'' None)"
    by simp
  have c: "errorsAs isAPIError (Some permissionDenied) = Some permissionDenied"
    by (simp add: permissionDenied_def)
  have blocks: "identityBlock exampleExternals cfgPat @ nextStepsBlock exampleExternals cfgPat 403 =
     ''\<newline>Host:      https://example.com\<newline>Auth type: Personal Access Token (pat)\<newline>\<newline>Next steps:\<newline>  - Verify you have the required permissions for this operation\<newline>  - Check your identity: databricks auth describe\<newline>  - Consider configuring a profile: databricks configure --profile <name>''"
    by (simp add: identityBlock_def nextStepsBlock_def AuthTypeDisplayName_def
          authTypeDisplayNames_def BuildDescribeCommand_def cfgPat_def emptyConfig_def
          exampleExternals_def asciiToLower_def AuthTypePat_def AuthTypeDatabricksCli_def)
  show ?thesis
    using C8_enrich_auth_error [of "Some (errorsNew ''some random error'')" exampleExternals cfgPat]
      C8_enrich_auth_error [of "Some (GoError (APIError 404 []) ''not found'' None)"
        exampleExternals cfgPat]
      C8_enrich_auth_error [of "Some permissionDenied" exampleExternals cfgPat]
      a b c blocks
    by (simp add: permissionDenied_def)
qed

subsection \<open>C10: the scopes of the configuration are not read\<close>

text \<open>
  Claim C10. For two configurations that are identical except for their scopes, and the
  same persistent auth client, \<^verbatim>\<open>authArgumentsFromConfig\<close> builds the same auth
  arguments (so the same OAuth argument is requested) and \<^verbatim>\<open>Configure\<close> returns the
  same result: the same error, or the same provider.
\<close>

theorem C10_configure_ignores_scopes:
  assumes "cfg1\<lparr>cScopes := []\<rparr> = cfg2\<lparr>cScopes := []\<rparr>"
  shows "authArgumentsFromConfig cfg1 = authArgumentsFromConfig cfg2 \<and>
         ToOAuthArgument X (authArgumentsFromConfig cfg1) =
           ToOAuthArgument X (authArgumentsFromConfig cfg2) \<and>
         Configure X persistentAuth cfg1 = Configure X persistentAuth cfg2"
proof -
  obtain h1 p1 a1 w1 t1 k1 f1 c1 s1 sc1 ci1 cs1 u1 d1 where c1:
    "cfg1 = \<lparr>cHost = h1, cProfile = p1, cAccountID = a1, cWorkspaceID = w1,
     cAuthType = t1, cToken = k1, cConfigFile = f1, cClusterID = c1,
     cServerlessComputeID = s1, cScopes = sc1, cClientID = ci1, cClientSecret = cs1,
     cExperimental_IsUnifiedHost = u1, cDisableOAuthRefreshToken = d1\<rparr>"
    by (cases cfg1) auto
  obtain h2 p2 a2 w2 t2 k2 f2 c2 s2 sc2 ci2 cs2 u2 d2 where c2:
    "cfg2 = \<lparr>cHost = h2, cProfile = p2, cAccountID = a2, cWorkspaceID = w2,
     cAuthType = t2, cToken = k2, cConfigFile = f2, cClusterID = c2,
     cServerlessComputeID = s2, cScopes = sc2, cClientID = ci2, cClientSecret = cs2,
     cExperimental_IsUnifiedHost = u2, cDisableOAuthRefreshToken = d2\<rparr>"
    by (cases cfg2) auto
  show ?thesis using assms unfolding c1 c2
    by (simp add: authArgumentsFromConfig_def Configure_def split: sum.splits)
qed

theorem C10_configure_ignores_scopes_witness:
  "(cfgPat\<lparr>cScopes := [''jobs'', ''clusters'']\<rparr>)\<lparr>cScopes := []\<rparr> = cfgPat\<lparr>cScopes := []\<rparr> \<and>
   cScopes (cfgPat\<lparr>cScopes := [''jobs'', ''clusters'']\<rparr>) \<noteq> cScopes cfgPat \<and>
   Configure exampleExternals (\<lambda>arg. Inr (GetWorkspaceHost arg))
       (cfgPat\<lparr>cScopes := [''jobs'', ''clusters'']\<rparr>) =
     Configure exampleExternals (\<lambda>arg. Inr (GetWorkspaceHost arg)) cfgPat \<and>
   Configure exampleExternals (\<lambda>arg. Inr (GetWorkspaceHost arg)) cfgPat =
     Inr (OAuthCredentialsProviderFromCachedTokenSource ''https://example.com'' True)"
proof -
  have eq: "(cfgPat\<lparr>cScopes := [''jobs'', ''clusters'']\<rparr>)\<lparr>cScopes := []\<rparr> = cfgPat\<lparr>cScopes := []\<rparr>"
    by simp
  have val: "Configure exampleExternals (\<lambda>arg. Inr (GetWorkspaceHost arg)) cfgPat =
     Inr (OAuthCredentialsProviderFromCachedTokenSource ''https://example.com'' True)"
    by (simp add: Configure_def authArgumentsFromConfig_def cfgPat_def emptyConfig_def
          exampleExternals_def exampleToOAuthArgument_def exampleHostType_def canon_simps)
  show ?thesis
    using C10_configure_ignores_scopes [OF eq, of exampleExternals
        "\<lambda>arg. Inr (GetWorkspaceHost arg)"] val
    by (simp add: cfgPat_def emptyConfig_def)
qed

subsection \<open>C5: the section a configuration resolves to\<close>

text \<open>
  Claim C5. \<^verbatim>\<open>matchOrCreateSection\<close> resolves the section by precedence. A non-empty
  \<^verbatim>\<open>cfg.Profile\<close> is the section, created (appended, empty) if absent. Else, with an
  account ID that exactly one profile matches, that profile is the section. Else (no
  account ID, or no profile matching it), with a host that exactly one profile matches
  in canonical form, that profile is the section. When the chain comes to its end with
  neither profile nor host supplied, the failure reads "cannot create new profile: empty
  section name"; when more than one profile matches the host, it reads "multiple profiles
  matched: " followed by the names in stored order, joined with ", ".
\<close>

theorem C5_match_or_create_section:
  "(cProfile cfg \<noteq> [] \<longrightarrow>
      matchOrCreateSection cf cfg =
        Inr (cProfile cfg,
             if cProfile cfg \<in> set (map fst cf) then cf else cf @ [(cProfile cfg, [])])) \<and>
   (cProfile cfg = [] \<and> cAccountID cfg \<noteq> [] \<and> accountMatches cf (cAccountID cfg) = [n] \<longrightarrow>
      matchOrCreateSection cf cfg = Inr (n, cf)) \<and>
   (cProfile cfg = [] \<and> (cAccountID cfg = [] \<or> accountMatches cf (cAccountID cfg) = []) \<and>
    cHost cfg \<noteq> [] \<and> hostMatches cf (cHost cfg) = [n] \<longrightarrow>
      matchOrCreateSection cf cfg = Inr (n, cf)) \<and>
   (cProfile cfg = [] \<and> (cAccountID cfg = [] \<or> accountMatches cf (cAccountID cfg) = []) \<and>
    cHost cfg = [] \<longrightarrow>
      (\<exists>e. matchOrCreateSection cf cfg = Inl e \<and>
           storeErrorText e = ''cannot create new profile: empty section name'')) \<and>
   (cProfile cfg = [] \<and> (cAccountID cfg = [] \<or> accountMatches cf (cAccountID cfg) = []) \<and>
    cHost cfg \<noteq> [] \<and> hostMatches cf (cHost cfg) = n1 # n2 # ns \<longrightarrow>
      (\<exists>e. matchOrCreateSection cf cfg = Inl e \<and>
           storeErrorText e =
             ''multiple profiles matched: '' @ stringsJoin (n1 # n2 # ns) '', ''))"
  by (auto simp: matchOrCreateSection_def)

lemmas store_simps =
  testFile_def emptyConfig_def accountMatches_def hostMatches_def

theorem C5_match_or_create_section_witness:
  "matchOrCreateSection testFile (emptyConfig\<lparr>cProfile := ''query''\<rparr>) = Inr (''query'', testFile) \<and>
   matchOrCreateSection testFile (emptyConfig\<lparr>cHost := ''https://bar'', cProfile := ''delirium''\<rparr>)
     = Inr (''delirium'', testFile @ [(''delirium'', [])]) \<and>
   accountMatches testFile ''abc'' = [''acc''] \<and>
   matchOrCreateSection testFile (emptyConfig\<lparr>cAccountID := ''abc''\<rparr>) = Inr (''acc'', testFile) \<and>
   hostMatches testFile ''https://query/?o=abracadabra'' = [''query''] \<and>
   matchOrCreateSection testFile (emptyConfig\<lparr>cHost := ''https://query/?o=abracadabra''\<rparr>)
     = Inr (''query'', testFile) \<and>
   map_sum storeErrorText id (matchOrCreateSection testFile emptyConfig)
     = Inl ''cannot create new profile: empty section name'' \<and>
   hostMatches testFile ''https://foo'' = [''foo1'', ''foo2''] \<and>
   map_sum storeErrorText id (matchOrCreateSection testFile (emptyConfig\<lparr>cHost := ''https://foo''\<rparr>))
     = Inl ''multiple profiles matched: foo1, foo2''"
proof -
  have am: "accountMatches testFile ''abc'' = [''acc'']"
    by (simp add: store_simps)
  have hq: "hostMatches testFile ''https://query/?o=abracadabra'' = [''query'']"
    by (simp add: store_simps canon_simps)
  have hf: "hostMatches testFile ''https://foo'' = [''foo1'', ''foo2'']"
    by (simp add: store_simps canon_simps)
  have names: "map fst testFile = [''DEFAULT'', ''query'', ''foo1'', ''foo2'', ''acc'']"
    by (simp add: testFile_def)
  show ?thesis
    using C5_match_or_create_section [of "emptyConfig\<lparr>cProfile := ''query''\<rparr>" testFile]
      C5_match_or_create_section
        [of "emptyConfig\<lparr>cHost := ''https://bar'', cProfile := ''delirium''\<rparr>" testFile]
      C5_match_or_create_section [of "emptyConfig\<lparr>cAccountID := ''abc''\<rparr>" testFile "''acc''"]
      C5_match_or_create_section
        [of "emptyConfig\<lparr>cHost := ''https://query/?o=abracadabra''\<rparr>" testFile "''query''"]
      C5_match_or_create_section [of emptyConfig testFile]
      C5_match_or_create_section
        [of "emptyConfig\<lparr>cHost := ''https://foo''\<rparr>" testFile _ "''foo1''" "''foo2''" "[]"]
      am hq hf names
    by (auto simp: emptyConfig_def)
qed

subsection \<open>C2: merge and clear-key semantics of a save\<close>













end
